theory Spec2Isabelle
  imports Complex_Main
begin

section \<open>Exceptions, arrays and the array backend\<close>

text \<open>
  The propagation operators of \<^verbatim>\<open>fracPy/Operators/Operators.py\<close> are embedded as
  functions over an explicit program state. Numbers are exact: a Python float is a
  \<^typ>\<open>real\<close>, a complex array entry a \<^typ>\<open>complex\<close>, and \<^verbatim>\<open>np.exp(1j * t)\<close> for a
  real \<open>t\<close> is \<^term>\<open>cis t\<close>. Rounding, overflow and IEEE infinities are outside the model.

  Every \<^verbatim>\<open>raise\<close> of the source, every failed dictionary lookup, every index out of
  range and every failed numpy broadcast is a value of \<open>error\<close>.
\<close>

datatype error =
    ValueError string
  | KeyError string
  | IndexError

definition broadcast_error :: error where
  "broadcast_error = ValueError ''operands could not be broadcast together''"

text \<open>
  A two-dimensional array is a list of rows. A field has the six axes of the source's
  shape convention (wavelength, object mode, probe mode, slice, height, width).
\<close>

type_synonym matrix = "complex list list"
type_synonym field = "matrix list list list list"

fun mapE :: "('a \<Rightarrow> error + 'b) \<Rightarrow> 'a list \<Rightarrow> error + 'b list" where
  "mapE f [] = Inr []"
| "mapE f (x # xs) =
     (case f x of
        Inl e \<Rightarrow> Inl e
      | Inr y \<Rightarrow> (case mapE f xs of Inl e \<Rightarrow> Inl e | Inr ys \<Rightarrow> Inr (y # ys)))"

text \<open>
  numpy's broadcasting along one axis: equal extents are paired, an extent of one is
  repeated, anything else fails.
\<close>

definition bc2 :: "('a \<Rightarrow> 'b \<Rightarrow> error + 'c) \<Rightarrow> 'a list \<Rightarrow> 'b list \<Rightarrow> error + 'c list" where
  "bc2 f xs ys =
     (if length xs = length ys then mapE (\<lambda>(x, y). f x y) (zip xs ys)
      else if length xs = 1 then mapE (\<lambda>y. f (hd xs) y) ys
      else if length ys = 1 then mapE (\<lambda>x. f x (hd ys)) xs
      else Inl broadcast_error)"

definition mul_c :: "complex \<Rightarrow> complex \<Rightarrow> error + complex" where
  "mul_c a b = Inr (a * b)"

definition mul_mm :: "matrix \<Rightarrow> matrix \<Rightarrow> error + matrix" where
  "mul_mm = bc2 (bc2 mul_c)"

definition mul_ff :: "field \<Rightarrow> field \<Rightarrow> error + field" where
  "mul_ff = bc2 (bc2 (bc2 (bc2 mul_mm)))"

definition mul_fm :: "field \<Rightarrow> matrix \<Rightarrow> error + field" where
  "mul_fm f m = mapE (mapE (mapE (mapE (\<lambda>x. mul_mm x m)))) f"

definition map_m :: "('a \<Rightarrow> 'b) \<Rightarrow> 'a list list \<Rightarrow> 'b list list" where
  "map_m f = map (map f)"

definition map_f :: "('a \<Rightarrow> 'b) \<Rightarrow> 'a list list list list \<Rightarrow> 'b list list list list" where
  "map_f f = map (map (map (map f)))"

definition map2_m :: "('a \<Rightarrow> 'b \<Rightarrow> 'c) \<Rightarrow> 'a list list \<Rightarrow> 'b list list \<Rightarrow> 'c list list" where
  "map2_m f A B = map2 (map2 f) A B"

definition conj_m :: "matrix \<Rightarrow> matrix" where
  "conj_m = map_m cnj"

definition conj_f :: "field \<Rightarrow> field" where
  "conj_f = map_f conj_m"

definition ncols :: "'a list list \<Rightarrow> nat" where
  "ncols u = (case u of [] \<Rightarrow> 0 | r # _ \<Rightarrow> length r)"

text \<open>
  \<^verbatim>\<open>fields.shape[-1]\<close>: the extent of the last axis. A nested list records the extent
  of an axis only below a first element, so the value is the source's when it is positive.
\<close>

definition last_axis :: "field \<Rightarrow> nat" where
  "last_axis f =
     (case f of [] \<Rightarrow> 0 | a # _ \<Rightarrow>
     (case a of [] \<Rightarrow> 0 | b # _ \<Rightarrow>
     (case b of [] \<Rightarrow> 0 | c # _ \<Rightarrow>
     (case c of [] \<Rightarrow> 0 | d # _ \<Rightarrow> ncols d))))"

definition ones_m :: "nat \<Rightarrow> matrix" where
  "ones_m n = replicate n (replicate n 1)"

text \<open>\<^verbatim>\<open>np.meshgrid(x, y)\<close>: the first result repeats \<open>x\<close> along the rows, the second
  holds \<open>y\<close> along the columns.\<close>

definition meshgrid :: "real list \<Rightarrow> real list \<Rightarrow> real list list \<times> real list list" where
  "meshgrid xs ys = (map (\<lambda>y. xs) ys, map (\<lambda>y. map (\<lambda>x. y) xs) ys)"

text \<open>\<^verbatim>\<open>np.linspace(a, b, n)\<close>, end point included.\<close>

definition linspace :: "real \<Rightarrow> real \<Rightarrow> nat \<Rightarrow> real list" where
  "linspace a b n =
     (if n = 1 then [a] else map (\<lambda>i. a + real i * ((b - a) / real (n - 1))) [0..<n])"

text \<open>
  \<^verbatim>\<open>fft2c\<close>, \<^verbatim>\<open>ifft2c\<close> and \<^verbatim>\<open>circ\<close> (module \<^verbatim>\<open>fracPy.utils.utils\<close>) and
  \<^verbatim>\<open>isGpuArray\<close> (module \<^verbatim>\<open>fracPy.utils.gpuUtils\<close>) are not among the sources. They are
  parameters of the model, collected in a backend. The transforms act on the last two
  axes; their first argument is the shift flag, \<open>None\<close> when the caller leaves it to
  the default.
\<close>

record backend =
  fft2c :: "bool option \<Rightarrow> matrix \<Rightarrow> matrix"
  ifft2c :: "bool option \<Rightarrow> matrix \<Rightarrow> matrix"
  circ :: "real \<Rightarrow> real \<Rightarrow> real \<Rightarrow> bool"
  isGpuArray :: "field \<Rightarrow> bool"

section \<open>Program state: the six kernel caches\<close>

text \<open>
  \<^verbatim>\<open>functools.lru_cache(maxsize)\<close> keeps its entries in order of use; here the most
  recently used entry is first. Every entry holds the identity of the cached object
  (a number drawn from \<open>next_oid\<close> when the object was built) and its value, so that
  "the same object" and "an equal object" differ. \<open>hits\<close> and \<open>misses\<close> are the
  counters of \<^verbatim>\<open>cache_info()\<close>.
\<close>

record ('k, 'v) lru_cache =
  entries :: "('k \<times> nat \<times> 'v) list"
  hits :: nat
  misses :: nat

definition cache_size :: nat where
  "cache_size = 10"

definition empty_cache :: "('k, 'v) lru_cache" where
  "empty_cache = \<lparr>entries = [], hits = 0, misses = 0\<rparr>"

text \<open>
  A cache key is the tuple of positional arguments followed by the keyword arguments,
  so the same values passed by keyword and by position are different keys. Only the
  device flag is ever passed both ways.
\<close>

datatype 'a passed = Positional 'a | Keyword 'a

fun arg_value :: "'a passed \<Rightarrow> 'a" where
  "arg_value (Positional x) = x"
| "arg_value (Keyword x) = x"

type_synonym quad_key = "real \<times> real \<times> nat \<times> real \<times> bool passed"
type_synonym asp_key = "bool \<times> nat \<times> nat \<times> nat \<times> real \<times> real \<times> real \<times> nat \<times> bool"
type_synonym poly_key =
  "string \<times> bool \<times> nat \<times> nat \<times> nat \<times> real \<times> real \<times> real \<times> nat \<times> real list \<times> bool"
type_synonym sasp_key =
  "string option \<times> bool \<times> nat \<times> nat \<times> nat \<times> nat \<times> real \<times> real \<times> real \<times> real \<times> bool passed"
type_synonym spoly_key =
  "bool \<times> nat \<times> nat \<times> nat \<times> real \<times> nat \<times> real list \<times> real \<times> real \<times> bool"
type_synonym twostep_key =
  "bool \<times> nat \<times> nat \<times> nat \<times> nat \<times> real \<times> real list \<times> real \<times> real \<times> bool"

text \<open>
  \<open>transforms\<close> is a ghost counter: the number of \<^verbatim>\<open>fft2c\<close> and \<^verbatim>\<open>ifft2c\<close> calls made
  so far. The source has no such variable; it lets a statement say that no transform
  ran.
\<close>

record pstate =
  quad_cache :: "(quad_key, matrix) lru_cache"
  asp_cache :: "(asp_key, field) lru_cache"
  poly_cache :: "(poly_key, field) lru_cache"
  sasp_cache :: "(sasp_key, field \<times> field) lru_cache"
  spoly_cache :: "(spoly_key, field \<times> field) lru_cache"
  twostep_cache :: "(twostep_key, field \<times> matrix) lru_cache"
  next_oid :: nat
  transforms :: nat

definition init_state :: pstate where
  "init_state =
     \<lparr>quad_cache = empty_cache, asp_cache = empty_cache, poly_cache = empty_cache,
      sasp_cache = empty_cache, spoly_cache = empty_cache, twostep_cache = empty_cache,
      next_oid = 0, transforms = 0\<rparr>"

text \<open>Computations that read and write the state and may raise.\<close>

type_synonym 'a M = "pstate \<Rightarrow> (error + 'a) \<times> pstate"

definition returnM :: "'a \<Rightarrow> 'a M" where
  "returnM x = (\<lambda>s. (Inr x, s))"

definition raiseM :: "error \<Rightarrow> 'a M" where
  "raiseM e = (\<lambda>s. (Inl e, s))"

definition bindM :: "'a M \<Rightarrow> ('a \<Rightarrow> 'b M) \<Rightarrow> 'b M" where
  "bindM m f = (\<lambda>s. case m s of (Inl e, s') \<Rightarrow> (Inl e, s') | (Inr x, s') \<Rightarrow> f x s')"

definition liftE :: "error + 'a \<Rightarrow> 'a M" where
  "liftE r = (\<lambda>s. (r, s))"

fun foldM :: "('a \<Rightarrow> 'b \<Rightarrow> 'b M) \<Rightarrow> 'a list \<Rightarrow> 'b \<Rightarrow> 'b M" where
  "foldM f [] acc = returnM acc"
| "foldM f (x # xs) acc = bindM (f x acc) (foldM f xs)"

definition tick :: "'a \<Rightarrow> 'a M" where
  "tick x = (\<lambda>s. (Inr x, s\<lparr>transforms := transforms s + 1\<rparr>))"

definition fft2c_m :: "backend \<Rightarrow> bool option \<Rightarrow> matrix \<Rightarrow> matrix M" where
  "fft2c_m B sw x = tick (fft2c B sw x)"

definition ifft2c_m :: "backend \<Rightarrow> bool option \<Rightarrow> matrix \<Rightarrow> matrix M" where
  "ifft2c_m B sw x = tick (ifft2c B sw x)"

definition fft2c_f :: "backend \<Rightarrow> bool option \<Rightarrow> field \<Rightarrow> field M" where
  "fft2c_f B sw x = tick (map_f (fft2c B sw) x)"

definition ifft2c_f :: "backend \<Rightarrow> bool option \<Rightarrow> field \<Rightarrow> field M" where
  "ifft2c_f B sw x = tick (map_f (ifft2c B sw) x)"

subsection \<open>The cache wrapper\<close>

text \<open>
  A call through \<^verbatim>\<open>lru_cache\<close>: a hit moves the entry to the front and returns the
  cached object; a miss counts, runs the function, and, unless it raised, stores the
  new object, dropping the entry used longest ago when the cache is full.
\<close>

definition cache_find :: "'k \<Rightarrow> ('k \<times> nat \<times> 'v) list \<Rightarrow> (nat \<times> 'v) option" where
  "cache_find k es = map_of es k"

definition cache_touch :: "'k \<Rightarrow> nat \<times> 'v \<Rightarrow> ('k \<times> nat \<times> 'v) list \<Rightarrow> ('k \<times> nat \<times> 'v) list" where
  "cache_touch k ov es = (k, ov) # filter (\<lambda>e. fst e \<noteq> k) es"

definition cache_insert :: "'k \<Rightarrow> nat \<times> 'v \<Rightarrow> ('k \<times> nat \<times> 'v) list \<Rightarrow> ('k \<times> nat \<times> 'v) list" where
  "cache_insert k ov es =
     (if k \<in> fst ` set es then es
      else if length es \<ge> cache_size then (k, ov) # butlast es
      else (k, ov) # es)"

definition lru_call ::
  "(pstate \<Rightarrow> ('k, 'v) lru_cache) \<Rightarrow>
   ((('k, 'v) lru_cache \<Rightarrow> ('k, 'v) lru_cache) \<Rightarrow> pstate \<Rightarrow> pstate) \<Rightarrow>
   'k \<Rightarrow> 'v M \<Rightarrow> (nat \<times> 'v) M" where
  "lru_call get upd k compute = (\<lambda>s.
     case cache_find k (entries (get s)) of
       Some ov \<Rightarrow>
         (Inr ov, upd (\<lambda>c. c\<lparr>entries := cache_touch k ov (entries c), hits := hits c + 1\<rparr>) s)
     | None \<Rightarrow>
         (case compute (upd (\<lambda>c. c\<lparr>misses := misses c + 1\<rparr>) s) of
            (Inl e, s') \<Rightarrow> (Inl e, s')
          | (Inr v, s') \<Rightarrow>
              (Inr (next_oid s', v),
               upd (\<lambda>c. c\<lparr>entries := cache_insert k (next_oid s', v) (entries c)\<rparr>)
                 (s'\<lparr>next_oid := next_oid s' + 1\<rparr>))))"

section \<open>Kernels\<close>

fun mapM :: "('a \<Rightarrow> 'b M) \<Rightarrow> 'a list \<Rightarrow> 'b list M" where
  "mapM f [] = returnM []"
| "mapM f (x # xs) = bindM (f x) (\<lambda>y. bindM (mapM f xs) (\<lambda>ys. returnM (y # ys)))"

text \<open>\<^verbatim>\<open>spectralDensity[i]\<close> on the array built from the tuple.\<close>

definition index_sd :: "real list \<Rightarrow> nat \<Rightarrow> real M" where
  "index_sd sd i = (if i < length sd then returnM (sd ! i) else raiseM IndexError)"

subsection \<open>\<^verbatim>\<open>__make_quad_phase\<close>\<close>

definition quad_phase_array :: "real \<Rightarrow> real \<Rightarrow> nat \<Rightarrow> real \<Rightarrow> matrix" where
  "quad_phase_array z wl N dx =
     (let x_p = map (\<lambda>x. x * dx) (linspace (- (real N / 2)) (real N / 2) N);
          (Xp, Yp) = meshgrid x_p x_p
      in map2_m (\<lambda>x y. cis (pi / (wl * z) * (x\<^sup>2 + y\<^sup>2))) Xp Yp)"

definition make_quad_phase :: "quad_key \<Rightarrow> (nat \<times> matrix) M" where
  "make_quad_phase key =
     lru_call quad_cache quad_cache_update key
       (case key of (z, wl, N, dx, on_gpu) \<Rightarrow> returnM (quad_phase_array z wl N dx))"

subsection \<open>\<^verbatim>\<open>aspw\<close>\<close>

definition aspw_grid :: "nat \<Rightarrow> real \<Rightarrow> real list list \<times> real list list" where
  "aspw_grid N L =
     (let X = map (\<lambda>i. (- (real N / 2) + real i) / L) [0..<N] in meshgrid X X)"

definition aspw_W :: "backend \<Rightarrow> nat \<Rightarrow> real \<Rightarrow> real \<Rightarrow> real \<Rightarrow> matrix" where
  "aspw_W B N z wl L =
     (let (Fx, Fy) = aspw_grid N L;
          f_max = L / (wl * sqrt (L\<^sup>2 + 4 * z\<^sup>2))
      in map2_m (\<lambda>x y. of_bool (circ B x y (2 * f_max))) Fx Fy)"

text \<open>
  The clip of the source is applied to \<open>mask\<close>, not to \<open>exponent\<close>:
  \<^verbatim>\<open>exponent = xp.clip(mask, 0, None)\<close>.
\<close>

definition aspw_H :: "nat \<Rightarrow> real \<Rightarrow> real \<Rightarrow> real \<Rightarrow> matrix" where
  "aspw_H N z wl L =
     (let k = 2 * pi / wl;
          (Fx, Fy) = aspw_grid N L;
          exponent = map2_m (\<lambda>x y. 1 - (x * wl)\<^sup>2 - (y * wl)\<^sup>2) Fx Fy;
          mask = map_m (\<lambda>e. e > 0) exponent;
          exponent = map_m (\<lambda>b. max (of_bool b) (0::real)) mask
      in map2_m (\<lambda>b e. of_bool b * cis (k * z * sqrt e)) mask exponent)"

definition aspw :: "backend \<Rightarrow> matrix \<Rightarrow> real \<Rightarrow> real \<Rightarrow> real \<Rightarrow> (matrix \<times> matrix) M" where
  "aspw B u z wl L =
     (let N = ncols u;
          W = aspw_W B N z wl L;
          H = aspw_H N z wl L
      in bindM (fft2c_m B None u) (\<lambda>U.
         bindM (liftE (mul_mm U H)) (\<lambda>UH.
         bindM (liftE (mul_mm UH W)) (\<lambda>UHW.
         bindM (ifft2c_m B None UHW) (\<lambda>u'.
         bindM (liftE (mul_mm H W)) (\<lambda>HW.
         returnM (u', HW)))))))"

subsection \<open>\<^verbatim>\<open>scaledASP\<close>\<close>

text \<open>
  With the defaults \<^verbatim>\<open>bandlimit = True\<close> and \<^verbatim>\<open>exactSolution = False\<close>, the only way
  the module calls it. The test \<^verbatim>\<open>m is not 1\<close> compares a float with the integer
  object \<open>1\<close> by identity and is always true, so both windows are applied.
\<close>

definition int_range :: "nat \<Rightarrow> real list" where
  "int_range N = map real_of_int [(- int N) div 2 ..  int N div 2 - 1]"

definition scaledASP_Q1 :: "backend \<Rightarrow> nat \<Rightarrow> real \<Rightarrow> real \<Rightarrow> real \<Rightarrow> real \<Rightarrow> matrix" where
  "scaledASP_Q1 B N z wl dx dq =
     (let k = 2 * pi / wl;
          x1 = map (\<lambda>i. i * dx) (int_range N);
          (X1, Y1) = meshgrid x1 x1;
          m = dq / dx;
          r1sq_max = wl * z / (2 * dx * (1 - m))
      in map2_m (\<lambda>x y. cis (k / 2 * (1 - m) / z * (x\<^sup>2 + y\<^sup>2)) * of_bool (circ B x y (2 * r1sq_max)))
           X1 Y1)"

definition scaledASP_Q2 :: "backend \<Rightarrow> nat \<Rightarrow> real \<Rightarrow> real \<Rightarrow> real \<Rightarrow> real \<Rightarrow> matrix" where
  "scaledASP_Q2 B N z wl dx dq =
     (let k = 2 * pi / wl;
          f = map (\<lambda>i. i / (real N * dx)) (int_range N);
          (FX, FY) = meshgrid f f;
          m = dq / dx;
          fsq_max = m / (2 * z * wl * (1 / (real N * dx)))
      in map2_m (\<lambda>x y. cis (- (pi\<^sup>2 * 2 * z / m / k * (x\<^sup>2 + y\<^sup>2))) * of_bool (circ B x y (2 * fsq_max)))
           FX FY)"

definition scaledASP ::
  "backend \<Rightarrow> matrix \<Rightarrow> real \<Rightarrow> real \<Rightarrow> real \<Rightarrow> real \<Rightarrow> (matrix \<times> matrix \<times> matrix) M" where
  "scaledASP B u z wl dx dq =
     (let N = ncols u;
          Q1 = scaledASP_Q1 B N z wl dx dq;
          Q2 = scaledASP_Q2 B N z wl dx dq
      in bindM (liftE (mul_mm Q1 u)) (\<lambda>Q1u.
         bindM (fft2c_m B None Q1u) (\<lambda>F.
         bindM (liftE (mul_mm Q2 F)) (\<lambda>Q2F.
         bindM (ifft2c_m B None Q2F) (\<lambda>Uout.
         returnM (Uout, Q1, Q2))))))"

subsection \<open>\<^verbatim>\<open>__make_transferfunction_ASP\<close>\<close>

text \<open>
  The nested comprehension of the source calls \<^verbatim>\<open>aspw\<close> on the all-ones slice
  \<^verbatim>\<open>dummy[nlambda, nosm, npsm, nslice, :, :]\<close> once per index and keeps the kernel,
  the second component of the result.
\<close>

definition kernel_stack :: "nat \<Rightarrow> nat \<Rightarrow> nat \<Rightarrow> (nat \<Rightarrow> matrix M) \<Rightarrow> field M" where
  "kernel_stack n_lambda n_osm n_psm kern =
     mapM (\<lambda>l. mapM (\<lambda>o'. mapM (\<lambda>p. mapM (\<lambda>nslice. kern l) [0..<1]) [0..<n_psm]) [0..<n_osm])
       [0..<n_lambda]"

definition make_transferfunction_ASP_body :: "backend \<Rightarrow> asp_key \<Rightarrow> field M" where
  "make_transferfunction_ASP_body B key =
     (case key of (fftshiftSwitch, nosm, npsm, Np, zo, wavelength, Lp, nlambda, on_gpu) \<Rightarrow>
        if fftshiftSwitch then
          raiseM (ValueError ''ASP propagatorType works only with fftshiftSwitch = False!'')
        else if nlambda > 1 then
          raiseM (ValueError ''For multi-wavelength, polychromeASP needs to be used instead of ASP'')
        else
          kernel_stack nlambda nosm npsm
            (\<lambda>l. bindM (aspw B (ones_m Np) zo wavelength Lp) (\<lambda>r. returnM (snd r))))"

definition make_transferfunction_ASP :: "backend \<Rightarrow> asp_key \<Rightarrow> (nat \<times> field) M" where
  "make_transferfunction_ASP B key =
     lru_call asp_cache asp_cache_update key (make_transferfunction_ASP_body B key)"

subsection \<open>\<^verbatim>\<open>__make_transferfunction_polychrome_ASP\<close>\<close>

definition make_transferfunction_polychrome_ASP_body :: "backend \<Rightarrow> poly_key \<Rightarrow> field M" where
  "make_transferfunction_polychrome_ASP_body B key =
     (case key of
        (propagatorType, fftshiftSwitch, nosm, npsm, Np, zo, wavelength, Lp, nlambda,
         spectralDensity, gpuSwitch) \<Rightarrow>
        if fftshiftSwitch then
          raiseM (ValueError ''ASP propagatorType works only with fftshiftSwitch = False!'')
        else
          kernel_stack nlambda nosm npsm
            (\<lambda>l. bindM (index_sd spectralDensity l) (\<lambda>wl.
                  bindM (aspw B (ones_m Np) zo wl Lp) (\<lambda>r. returnM (snd r)))))"

definition make_transferfunction_polychrome_ASP :: "backend \<Rightarrow> poly_key \<Rightarrow> (nat \<times> field) M" where
  "make_transferfunction_polychrome_ASP B key =
     lru_call poly_cache poly_cache_update key (make_transferfunction_polychrome_ASP_body B key)"

subsection \<open>\<^verbatim>\<open>__make_transferfunction_scaledASP\<close>\<close>

text \<open>
  \<^verbatim>\<open>for nosm in range(nosm): for npsm in range(npsm): ...\<close> rebinds the function's
  own variables: \<open>range(nosm)\<close> is evaluated once, but \<open>range(npsm)\<close> is evaluated
  again in every outer round, with \<open>npsm\<close> then holding the last index of the previous
  inner loop. The loops below carry that variable. Entries of \<open>_Q1\<close> and \<open>_Q2\<close> the
  loops do not reach keep the ones of \<^verbatim>\<open>np.ones_like(dummy)\<close>.
\<close>

definition ones_f :: "nat \<Rightarrow> nat \<Rightarrow> nat \<Rightarrow> nat \<Rightarrow> field" where
  "ones_f n_lambda n_osm n_psm N =
     replicate n_lambda (replicate n_osm (replicate n_psm [ones_m N]))"

text \<open>The assignment \<^verbatim>\<open>A[0, i, j, 0, ...] = Q\<close>.\<close>

definition assign_slice :: "field \<Rightarrow> nat \<Rightarrow> nat \<Rightarrow> matrix \<Rightarrow> field" where
  "assign_slice A i j Q = A[0 := (A ! 0)[i := (A ! 0 ! i)[j := (A ! 0 ! i ! j)[0 := Q]]]]"

definition scaledASP_inner ::
  "backend \<Rightarrow> nat \<Rightarrow> real \<Rightarrow> real \<Rightarrow> real \<Rightarrow> real \<Rightarrow> nat \<Rightarrow> nat \<Rightarrow> field \<times> field \<Rightarrow> (field \<times> field) M" where
  "scaledASP_inner B Np zo wavelength dxo dxd i j QQ =
     bindM (scaledASP B (ones_m Np) zo wavelength dxo dxd) (\<lambda>(u, Q1, Q2).
       returnM (assign_slice (fst QQ) i j Q1, assign_slice (snd QQ) i j Q2))"

definition scaledASP_outer ::
  "backend \<Rightarrow> nat \<Rightarrow> real \<Rightarrow> real \<Rightarrow> real \<Rightarrow> real \<Rightarrow> nat \<Rightarrow> nat \<times> field \<times> field \<Rightarrow>
   (nat \<times> field \<times> field) M" where
  "scaledASP_outer B Np zo wavelength dxo dxd i st =
     (case st of (npsm, QQ) \<Rightarrow>
        bindM (foldM (scaledASP_inner B Np zo wavelength dxo dxd i) [0..<npsm] QQ) (\<lambda>QQ'.
          returnM (if npsm = 0 then npsm else npsm - 1, QQ')))"

definition make_transferfunction_scaledASP_body :: "backend \<Rightarrow> sasp_key \<Rightarrow> (field \<times> field) M" where
  "make_transferfunction_scaledASP_body B key =
     (case key of
        (propagatorType, fftshiftSwitch, nlambda, nosm, npsm, Np, zo, wavelength, dxo, dxd,
         gpuSwitch) \<Rightarrow>
        if fftshiftSwitch then
          raiseM (ValueError ''scaledASP propagatorType works only with fftshiftSwitch = False!'')
        else if nlambda > 1 then
          raiseM (ValueError
            ''For multi-wavelength, scaledPolychromeASP needs to be used instead of scaledASP'')
        else
          bindM (foldM (scaledASP_outer B Np zo wavelength dxo dxd) [0..<nosm]
                   (npsm, ones_f 1 nosm npsm Np, ones_f 1 nosm npsm Np))
            (\<lambda>(n, QQ). returnM QQ))"

definition make_transferfunction_scaledASP ::
  "backend \<Rightarrow> sasp_key \<Rightarrow> (nat \<times> field \<times> field) M" where
  "make_transferfunction_scaledASP B key =
     lru_call sasp_cache sasp_cache_update key (make_transferfunction_scaledASP_body B key)"

subsection \<open>\<^verbatim>\<open>__make_transferfunction_scaledPolychromeASP\<close>\<close>

definition scaledPolychromeASP_step ::
  "backend \<Rightarrow> bool \<Rightarrow> nat \<Rightarrow> nat \<Rightarrow> nat \<Rightarrow> real \<Rightarrow> real list \<Rightarrow> real \<Rightarrow> real \<Rightarrow> bool \<Rightarrow>
   nat \<Rightarrow> field \<times> field \<Rightarrow> (field \<times> field) M" where
  "scaledPolychromeASP_step B fftshiftSwitch nosm npsm Np zo spectralDensity dxo dxd on_gpu l QQ =
     bindM (index_sd spectralDensity l) (\<lambda>wl.
     bindM (make_transferfunction_scaledASP B
              (None, fftshiftSwitch, 1, nosm, npsm, Np, zo, wl, dxo, dxd, Keyword on_gpu))
       (\<lambda>(oid, Q1_candidate, Q2_candidate).
          if Q1_candidate = [] \<or> Q2_candidate = [] then raiseM IndexError
          else returnM ((fst QQ)[l := hd Q1_candidate], (snd QQ)[l := hd Q2_candidate])))"

definition make_transferfunction_scaledPolychromeASP_body ::
  "backend \<Rightarrow> spoly_key \<Rightarrow> (field \<times> field) M" where
  "make_transferfunction_scaledPolychromeASP_body B key =
     (case key of
        (fftshiftSwitch, nlambda, nosm, npsm, zo, Np, spectralDensity, dxo, dxd, on_gpu) \<Rightarrow>
        if fftshiftSwitch then
          raiseM (ValueError
            ''scaledPolychromeASP propagatorType works only with fftshiftSwitch = False!'')
        else
          foldM (scaledPolychromeASP_step B fftshiftSwitch nosm npsm Np zo spectralDensity dxo dxd on_gpu)
            [0..<nlambda] (ones_f nlambda nosm npsm Np, ones_f nlambda nosm npsm Np))"

definition make_transferfunction_scaledPolychromeASP ::
  "backend \<Rightarrow> spoly_key \<Rightarrow> (nat \<times> field \<times> field) M" where
  "make_transferfunction_scaledPolychromeASP B key =
     lru_call spoly_cache spoly_cache_update key
       (make_transferfunction_scaledPolychromeASP_body B key)"

subsection \<open>\<^verbatim>\<open>__make_cache_twoStepPolychrome\<close>\<close>

definition make_cache_twoStepPolychrome_body :: "backend \<Rightarrow> twostep_key \<Rightarrow> (field \<times> matrix) M" where
  "make_cache_twoStepPolychrome_body B key =
     (case key of
        (fftshiftSwitch, nlambda, nosm, npsm, Np, zo, spectralDensity, Lp, dxp, on_gpu) \<Rightarrow>
        if fftshiftSwitch then
          raiseM (ValueError
            ''twoStepPolychrome propagatorType works only with fftshiftSwitch = False!'')
        else
          bindM (kernel_stack nlambda nosm npsm
                   (\<lambda>l. bindM (index_sd spectralDensity 0) (\<lambda>wl0.
                         bindM (index_sd spectralDensity l) (\<lambda>wl.
                         bindM (aspw B (ones_m Np) (zo * (1 - wl0 / wl)) wl Lp) (\<lambda>r.
                         returnM (snd r))))))
            (\<lambda>transferFunction.
          bindM (index_sd spectralDensity 0) (\<lambda>wl0.
          bindM (make_quad_phase (zo, wl0, Np, dxp, Positional on_gpu)) (\<lambda>(oid, quadraticPhase).
          returnM (transferFunction, quadraticPhase)))))"

definition make_cache_twoStepPolychrome :: "backend \<Rightarrow> twostep_key \<Rightarrow> (nat \<times> field \<times> matrix) M" where
  "make_cache_twoStepPolychrome B key =
     lru_call twostep_cache twostep_cache_update key (make_cache_twoStepPolychrome_body B key)"

subsection \<open>\<^verbatim>\<open>clear_cache\<close>\<close>

definition cache_clear :: "('k, 'v) lru_cache \<Rightarrow> ('k, 'v) lru_cache" where
  "cache_clear c = empty_cache"

definition clear_cache :: "pstate \<Rightarrow> pstate" where
  "clear_cache s =
     s\<lparr>quad_cache := cache_clear (quad_cache s),
       asp_cache := cache_clear (asp_cache s),
       sasp_cache := cache_clear (sasp_cache s),
       twostep_cache := cache_clear (twostep_cache s),
       poly_cache := cache_clear (poly_cache s),
       spoly_cache := cache_clear (spoly_cache s)\<rparr>"

section \<open>Configuration and reconstruction state\<close>

record params =
  propagatorType :: string
  fftshiftSwitch :: bool
  gpuSwitch :: bool

record reconstruction =
  esw :: field
  ESW :: field
  zo :: real
  wavelength :: real
  Np :: nat
  dxp :: real
  dxo :: real
  dxd :: real
  Lp :: real
  nlambda :: nat
  nosm :: nat
  npsm :: nat
  spectralDensity :: "real list"

section \<open>Propagators\<close>

text \<open>
  Every propagator takes the field, the parameters, the reconstruction state and the
  optional distance \<open>z\<close> (\<open>None\<close>: \<^verbatim>\<open>reconstruction.zo\<close>), and returns a pair.
\<close>

definition distance :: "real option \<Rightarrow> reconstruction \<Rightarrow> real" where
  "distance z r = (case z of None \<Rightarrow> zo r | Some z' \<Rightarrow> z')"

definition propagate_fraunhofer ::
  "backend \<Rightarrow> field \<Rightarrow> params \<Rightarrow> reconstruction \<Rightarrow> real option \<Rightarrow> (field \<times> field) M" where
  "propagate_fraunhofer B flds p r z =
     bindM (fft2c_f B (Some (fftshiftSwitch p)) flds) (\<lambda>F. returnM (esw r, F))"

definition propagate_fraunhofer_inv ::
  "backend \<Rightarrow> field \<Rightarrow> params \<Rightarrow> reconstruction \<Rightarrow> real option \<Rightarrow> (field \<times> field) M" where
  "propagate_fraunhofer_inv B flds p r z =
     bindM (ifft2c_f B (Some (fftshiftSwitch p)) flds) (\<lambda>F. returnM (esw r, F))"

definition propagate_fresnel ::
  "backend \<Rightarrow> field \<Rightarrow> params \<Rightarrow> reconstruction \<Rightarrow> real option \<Rightarrow> (field \<times> field) M" where
  "propagate_fresnel B flds p r z =
     (let z = distance z r;
          on_gpu = isGpuArray B flds
      in bindM (make_quad_phase (z, wavelength r, last_axis flds, dxp r, Keyword on_gpu))
           (\<lambda>(oid, quadratic_phase).
         bindM (liftE (mul_fm flds quadratic_phase)) (\<lambda>fq.
         bindM (fft2c_f B (Some (fftshiftSwitch p)) fq) (\<lambda>eswUpdate.
         returnM (esw r, eswUpdate)))))"

definition propagate_fresnel_inv ::
  "backend \<Rightarrow> field \<Rightarrow> params \<Rightarrow> reconstruction \<Rightarrow> real option \<Rightarrow> (field \<times> field) M" where
  "propagate_fresnel_inv B flds p r z =
     (let z = distance z r
      in bindM (make_quad_phase (z, wavelength r, Np r, dxp r, Keyword (gpuSwitch p)))
           (\<lambda>(oid, qp).
         let quadratic_phase = conj_m qp
         in bindM (ifft2c_f B (Some (fftshiftSwitch p)) flds) (\<lambda>F.
            bindM (liftE (mul_fm F quadratic_phase)) (\<lambda>eswUpdate.
            returnM (esw r, eswUpdate)))))"

definition propagate_ASP ::
  "backend \<Rightarrow> field \<Rightarrow> params \<Rightarrow> reconstruction \<Rightarrow> bool \<Rightarrow> real option \<Rightarrow> (field \<times> field) M" where
  "propagate_ASP B flds p r inverse' z =
     (if fftshiftSwitch p then
        raiseM (ValueError ''ASP propagator only works with fftshiftswitch == False'')
      else if nlambda r > 1 then
        raiseM (ValueError ''For multi-wavelength, set polychromeASP instead of ASP'')
      else
        let z = distance z r
        in bindM (make_transferfunction_ASP B
                    (fftshiftSwitch p, nosm r, npsm r, Np r, z, wavelength r, Lp r, nlambda r,
                     gpuSwitch p))
             (\<lambda>(oid, tf).
           let transfer_function = (if inverse' then conj_f tf else tf)
           in bindM (fft2c_f B None flds) (\<lambda>F.
              bindM (liftE (mul_ff F transfer_function)) (\<lambda>FT.
              bindM (ifft2c_f B None FT) (\<lambda>result.
              returnM (esw r, result))))))"

definition propagate_ASP_inv ::
  "backend \<Rightarrow> field \<Rightarrow> params \<Rightarrow> reconstruction \<Rightarrow> real option \<Rightarrow> (field \<times> field) M" where
  "propagate_ASP_inv B flds p r z = propagate_ASP B flds p r True z"

definition propagate_twoStepPolychrome ::
  "backend \<Rightarrow> field \<Rightarrow> params \<Rightarrow> reconstruction \<Rightarrow> bool \<Rightarrow> real option \<Rightarrow> (field \<times> field) M" where
  "propagate_twoStepPolychrome B flds p r inverse' z =
     (let z = distance z r
      in bindM (make_cache_twoStepPolychrome B
                  (fftshiftSwitch p, nlambda r, nosm r, npsm r, Np r, z, spectralDensity r,
                   Lp r, dxp r, gpuSwitch p))
           (\<lambda>(oid, transfer_function, quadratic_phase).
         if inverse' then
           bindM (liftE (mul_fm flds (conj_m quadratic_phase))) (\<lambda>fq.
           bindM (fft2c_f B None fq) (\<lambda>F.
           bindM (liftE (mul_ff F (conj_f transfer_function))) (\<lambda>FT.
           bindM (ifft2c_f B None FT) (\<lambda>result.
           returnM (esw r, result)))))
         else
           bindM (fft2c_f B None flds) (\<lambda>F.
           bindM (liftE (mul_ff F transfer_function)) (\<lambda>FT.
           bindM (ifft2c_f B None FT) (\<lambda>G.
           bindM (liftE (mul_fm G quadratic_phase)) (\<lambda>result.
           bindM (fft2c_f B (Some (fftshiftSwitch p)) result) (\<lambda>result.
           returnM (esw r, result))))))))"

definition propagate_twoStepPolychrome_inv ::
  "backend \<Rightarrow> field \<Rightarrow> params \<Rightarrow> reconstruction \<Rightarrow> real option \<Rightarrow> (field \<times> field) M" where
  "propagate_twoStepPolychrome_inv B flds p r z =
     bindM (propagate_twoStepPolychrome B flds p r True z) (\<lambda>rF.
     bindM (propagate_twoStepPolychrome B (ESW r) p r True z) (\<lambda>rG.
     returnM (snd rG, snd rF)))"

definition propagate_scaledASP ::
  "backend \<Rightarrow> field \<Rightarrow> params \<Rightarrow> reconstruction \<Rightarrow> bool \<Rightarrow> real option \<Rightarrow> (field \<times> field) M" where
  "propagate_scaledASP B flds p r inverse' z =
     (let z = distance z r
      in bindM (make_transferfunction_scaledASP B
                  (Some (propagatorType p), fftshiftSwitch p, nlambda r, nosm r, npsm r, Np r, z,
                   wavelength r, dxo r, dxd r, Positional (gpuSwitch p)))
           (\<lambda>(oid, Q1, Q2).
         if inverse' then
           let Q1 = conj_f Q1; Q2 = conj_f Q2
           in bindM (fft2c_f B None flds) (\<lambda>F.
              bindM (liftE (mul_ff F Q2)) (\<lambda>FQ.
              bindM (ifft2c_f B None FQ) (\<lambda>G.
              bindM (liftE (mul_ff G Q1)) (\<lambda>result.
              returnM (esw r, result)))))
         else
           bindM (liftE (mul_ff flds Q1)) (\<lambda>fQ.
           bindM (fft2c_f B None fQ) (\<lambda>F.
           bindM (liftE (mul_ff F Q2)) (\<lambda>FQ.
           bindM (ifft2c_f B None FQ) (\<lambda>result.
           returnM (esw r, result)))))))"

definition propagate_scaledASP_inv ::
  "backend \<Rightarrow> field \<Rightarrow> params \<Rightarrow> reconstruction \<Rightarrow> real option \<Rightarrow> (field \<times> field) M" where
  "propagate_scaledASP_inv B flds p r z = propagate_scaledASP B flds p r True z"

text \<open>
  The polychromatic variant passes \<^verbatim>\<open>reconstruction.dxp\<close> where the kernel function
  expects \<open>dxd\<close>, and its inverse branch multiplies by \<open>Q1\<close> in the frequency plane and
  by \<open>Q2\<close> afterwards.
\<close>

definition propagate_scaledPolychromeASP ::
  "backend \<Rightarrow> field \<Rightarrow> params \<Rightarrow> reconstruction \<Rightarrow> bool \<Rightarrow> real option \<Rightarrow> (field \<times> field) M" where
  "propagate_scaledPolychromeASP B flds p r inverse' z =
     (let z = distance z r
      in bindM (make_transferfunction_scaledPolychromeASP B
                  (fftshiftSwitch p, nlambda r, nosm r, npsm r, z, Np r, spectralDensity r,
                   dxo r, dxp r, gpuSwitch p))
           (\<lambda>(oid, Q1, Q2).
         if inverse' then
           let Q1 = conj_f Q1; Q2 = conj_f Q2
           in bindM (fft2c_f B None flds) (\<lambda>F.
              bindM (liftE (mul_ff F Q1)) (\<lambda>FQ.
              bindM (ifft2c_f B None FQ) (\<lambda>G.
              bindM (liftE (mul_ff G Q2)) (\<lambda>result.
              returnM (esw r, result)))))
         else
           bindM (liftE (mul_ff flds Q1)) (\<lambda>fQ.
           bindM (fft2c_f B None fQ) (\<lambda>F.
           bindM (liftE (mul_ff F Q2)) (\<lambda>FQ.
           bindM (ifft2c_f B None FQ) (\<lambda>result.
           returnM (esw r, result)))))))"

definition propagate_scaledPolychromeASP_inv ::
  "backend \<Rightarrow> field \<Rightarrow> params \<Rightarrow> reconstruction \<Rightarrow> real option \<Rightarrow> (field \<times> field) M" where
  "propagate_scaledPolychromeASP_inv B flds p r z =
     propagate_scaledPolychromeASP B flds p r True z"

definition propagate_polychromeASP ::
  "backend \<Rightarrow> field \<Rightarrow> params \<Rightarrow> reconstruction \<Rightarrow> bool \<Rightarrow> real option \<Rightarrow> (field \<times> field) M" where
  "propagate_polychromeASP B flds p r inverse' z =
     (let z = distance z r
      in bindM (make_transferfunction_polychrome_ASP B
                  (propagatorType p, fftshiftSwitch p, nosm r, npsm r, Np r, z, wavelength r,
                   Lp r, nlambda r, spectralDensity r, gpuSwitch p))
           (\<lambda>(oid, tf).
         let transfer_function = (if inverse' then conj_f tf else tf)
         in bindM (fft2c_f B None flds) (\<lambda>F.
            bindM (liftE (mul_ff F transfer_function)) (\<lambda>FT.
            bindM (ifft2c_f B None FT) (\<lambda>result.
            returnM (esw r, result))))))"

definition propagate_polychromeASP_inv ::
  "backend \<Rightarrow> field \<Rightarrow> params \<Rightarrow> reconstruction \<Rightarrow> real option \<Rightarrow> (field \<times> field) M" where
  "propagate_polychromeASP_inv B flds p r z = propagate_polychromeASP B flds p r True z"

section \<open>The registry and the two adapters\<close>

text \<open>
  The adapters call the function they look up with three positional arguments, so the
  optional \<open>inverse\<close> and \<open>z\<close> take their defaults.
\<close>

type_synonym propagator = "backend \<Rightarrow> field \<Rightarrow> params \<Rightarrow> reconstruction \<Rightarrow> (field \<times> field) M"

definition forward_lookup_dictionary :: "(string \<times> propagator) list" where
  "forward_lookup_dictionary =
     [(''Fraunhofer'', \<lambda>B f p r. propagate_fraunhofer B f p r None),
      (''Fresnel'', \<lambda>B f p r. propagate_fresnel B f p r None),
      (''ASP'', \<lambda>B f p r. propagate_ASP B f p r False None),
      (''polychromeASP'', \<lambda>B f p r. propagate_polychromeASP B f p r False None),
      (''scaledASP'', \<lambda>B f p r. propagate_scaledASP B f p r False None),
      (''scaledPolychromeASP'', \<lambda>B f p r. propagate_scaledPolychromeASP B f p r False None),
      (''twoStepPolychrome'', \<lambda>B f p r. propagate_twoStepPolychrome B f p r False None)]"

definition reverse_lookup_dictionary :: "(string \<times> propagator) list" where
  "reverse_lookup_dictionary =
     [(''Fraunhofer'', \<lambda>B f p r. propagate_fraunhofer_inv B f p r None),
      (''Fresnel'', \<lambda>B f p r. propagate_fresnel_inv B f p r None),
      (''ASP'', \<lambda>B f p r. propagate_ASP_inv B f p r None),
      (''polychromeASP'', \<lambda>B f p r. propagate_polychromeASP_inv B f p r None),
      (''scaledASP'', \<lambda>B f p r. propagate_scaledASP_inv B f p r None),
      (''scaledPolychromeASP'', \<lambda>B f p r. propagate_scaledPolychromeASP_inv B f p r None),
      (''twoStepPolychrome'', \<lambda>B f p r. propagate_twoStepPolychrome_inv B f p r None)]"

definition lookup :: "(string \<times> propagator) list \<Rightarrow> string \<Rightarrow> propagator M" where
  "lookup d name = (case map_of d name of None \<Rightarrow> raiseM (KeyError name) | Some m \<Rightarrow> returnM m)"

definition detector2object ::
  "backend \<Rightarrow> field option \<Rightarrow> params \<Rightarrow> reconstruction \<Rightarrow> (field \<times> field) M" where
  "detector2object B flds p r =
     (let flds = (case flds of None \<Rightarrow> ESW r | Some f \<Rightarrow> f)
      in bindM (lookup reverse_lookup_dictionary (propagatorType p)) (\<lambda>method.
         method B flds p r))"

definition object2detector ::
  "backend \<Rightarrow> field option \<Rightarrow> params \<Rightarrow> reconstruction \<Rightarrow> (field \<times> field) M" where
  "object2detector B flds p r =
     bindM (lookup forward_lookup_dictionary (propagatorType p)) (\<lambda>method.
       let flds = (case flds of None \<Rightarrow> esw r | Some f \<Rightarrow> f)
       in method B flds p r)"

section \<open>A reference backend\<close>

text \<open>
  Modelled from the spec: \<^verbatim>\<open>fft2c\<close>, \<^verbatim>\<open>ifft2c\<close>, \<^verbatim>\<open>circ\<close> and \<^verbatim>\<open>isGpuArray\<close> are
  missing from the sources. The spec calls the transforms "plain FFT/inverse-FFT with
  the configured shift convention" and the window "a circular band-limit window"; here
  they are the unitary two-dimensional discrete Fourier transform, centred unless the
  shift flag is set, and the open disc of diameter \<open>D\<close>. Arrays live on the host. The
  general theorems below hold for every backend; this one supplies concrete inputs.
\<close>

definition dft2 :: "real \<Rightarrow> matrix \<Rightarrow> matrix" where
  "dft2 sg x =
     (let M = length x; N = ncols x
      in map (\<lambda>k. map (\<lambda>l.
           (\<Sum>m\<leftarrow>[0..<M]. \<Sum>n\<leftarrow>[0..<N].
              x ! m ! n * cis (sg * 2 * pi * (real (k * m) / real M + real (l * n) / real N)))
           / of_real (sqrt (real (M * N)))) [0..<N]) [0..<M])"

definition fftshift :: "'a list \<Rightarrow> 'a list" where
  "fftshift xs = rotate ((length xs + 1) div 2) xs"

definition ifftshift :: "'a list \<Rightarrow> 'a list" where
  "ifftshift xs = rotate (length xs div 2) xs"

definition ref_fft2c :: "bool option \<Rightarrow> matrix \<Rightarrow> matrix" where
  "ref_fft2c sw x =
     (if sw = Some True then dft2 (- 1) x
      else fftshift (map fftshift (dft2 (- 1) (ifftshift (map ifftshift x)))))"

definition ref_ifft2c :: "bool option \<Rightarrow> matrix \<Rightarrow> matrix" where
  "ref_ifft2c sw x =
     (if sw = Some True then dft2 1 x
      else fftshift (map fftshift (dft2 1 (ifftshift (map ifftshift x)))))"

definition ref_circ :: "real \<Rightarrow> real \<Rightarrow> real \<Rightarrow> bool" where
  "ref_circ x y D = (x\<^sup>2 + y\<^sup>2 < (D / 2)\<^sup>2)"

definition ref_backend :: backend where
  "ref_backend =
     \<lparr>fft2c = ref_fft2c, ifft2c = ref_ifft2c, circ = ref_circ, isGpuArray = (\<lambda>f. False)\<rparr>"

section \<open>Names and inputs used in the statements\<close>

definition supported_models :: "string list" where
  "supported_models =
     [''Fraunhofer'', ''Fresnel'', ''ASP'', ''polychromeASP'', ''scaledASP'',
      ''scaledPolychromeASP'', ''twoStepPolychrome'']"

text \<open>A field of one pixel, and a reconstruction state on a grid of one pixel.\<close>

definition in0 :: field where
  "in0 = [[[[[[7]]]]]]"

definition r_1x1 :: reconstruction where
  "r_1x1 =
     \<lparr>esw = [[[[[[1]]]]]], ESW = [[[[[[5]]]]]], zo = 1, wavelength = 1, Np = 1, dxp = 2,
      dxo = 1, dxd = 1, Lp = 1, nlambda = 1, nosm = 1, npsm = 1, spectralDensity = [1]\<rparr>"

definition p_unknown :: params where
  "p_unknown = \<lparr>propagatorType = ''Rayleigh'', fftshiftSwitch = False, gpuSwitch = False\<rparr>"

definition p_fraunhofer :: params where
  "p_fraunhofer = \<lparr>propagatorType = ''Fraunhofer'', fftshiftSwitch = False, gpuSwitch = False\<rparr>"

definition p_twostep :: params where
  "p_twostep =
     \<lparr>propagatorType = ''twoStepPolychrome'', fftshiftSwitch = False, gpuSwitch = False\<rparr>"

text \<open>
  The propagators whose first result is \<^verbatim>\<open>reconstruction.esw\<close>: every forward and
  every inverse function but \<^verbatim>\<open>propagate_twoStepPolychrome_inv\<close>.
\<close>

definition esw_returning ::
  "(backend \<Rightarrow> field \<Rightarrow> params \<Rightarrow> reconstruction \<Rightarrow> real option \<Rightarrow> (field \<times> field) M) list" where
  "esw_returning =
     [propagate_fraunhofer, propagate_fraunhofer_inv,
      propagate_fresnel, propagate_fresnel_inv,
      (\<lambda>B f p r. propagate_ASP B f p r False), (\<lambda>B f p r. propagate_ASP B f p r True),
      propagate_ASP_inv,
      (\<lambda>B f p r. propagate_polychromeASP B f p r False),
      (\<lambda>B f p r. propagate_polychromeASP B f p r True),
      propagate_polychromeASP_inv,
      (\<lambda>B f p r. propagate_scaledASP B f p r False),
      (\<lambda>B f p r. propagate_scaledASP B f p r True),
      propagate_scaledASP_inv,
      (\<lambda>B f p r. propagate_scaledPolychromeASP B f p r False),
      (\<lambda>B f p r. propagate_scaledPolychromeASP B f p r True),
      propagate_scaledPolychromeASP_inv,
      (\<lambda>B f p r. propagate_twoStepPolychrome B f p r False),
      (\<lambda>B f p r. propagate_twoStepPolychrome B f p r True)]"

text \<open>The states a two-step inverse propagation on the one-pixel grid runs through.\<close>

definition k_twostep :: twostep_key where
  "k_twostep = (False, 1, 1, 1, 1, 1, [1], 1, 2, False)"

definition s_twostep1 :: pstate where
  "s_twostep1 = init_state
     \<lparr>quad_cache := \<lparr>entries = [((1, 1, 1, 2, Positional False), 0, [[1]])], hits = 0, misses = 1\<rparr>,
      twostep_cache := \<lparr>entries = [(k_twostep, 1, ([[[[[[1]]]]]], [[1]]))], hits = 0, misses = 1\<rparr>,
      next_oid := 2, transforms := 2\<rparr>"

definition s_twostep2 :: pstate where
  "s_twostep2 = s_twostep1\<lparr>transforms := 4\<rparr>"

definition s_twostep3 :: pstate where
  "s_twostep3 = s_twostep2
     \<lparr>twostep_cache := \<lparr>entries = [(k_twostep, 1, ([[[[[[1]]]]]], [[1]]))], hits = 1, misses = 1\<rparr>,
      transforms := 6\<rparr>"

section \<open>Invariants of the caches\<close>

text \<open>
  \<open>preserves I m\<close>: the computation \<open>m\<close>, run in a state that satisfies \<open>I\<close>, ends
  in a state that satisfies \<open>I\<close>, whether it returns or raises.
\<close>

definition preserves :: "(pstate \<Rightarrow> bool) \<Rightarrow> 'a M \<Rightarrow> bool" where
  "preserves I m \<longleftrightarrow> (\<forall>s r s'. I s \<longrightarrow> m s = (r, s') \<longrightarrow> I s')"

text \<open>
  The states the module can be in: the caches start empty; every call of a kernel
  function, every transform and \<^verbatim>\<open>clear_cache\<close> is a step.
\<close>

inductive reachable :: "backend \<Rightarrow> pstate \<Rightarrow> bool" for B :: backend where
  start: "reachable B init_state"
| quad_phase: "reachable B s \<Longrightarrow> make_quad_phase k s = (res, s') \<Longrightarrow> reachable B s'"
| transferfunction_ASP:
    "reachable B s \<Longrightarrow> make_transferfunction_ASP B ka s = (resa, s') \<Longrightarrow> reachable B s'"
| transferfunction_polychrome_ASP:
    "reachable B s \<Longrightarrow> make_transferfunction_polychrome_ASP B kp s = (resp, s') \<Longrightarrow>
     reachable B s'"
| transferfunction_scaledASP:
    "reachable B s \<Longrightarrow> make_transferfunction_scaledASP B ks s = (ress, s') \<Longrightarrow> reachable B s'"
| transferfunction_scaledPolychromeASP:
    "reachable B s \<Longrightarrow> make_transferfunction_scaledPolychromeASP B kq s = (resq, s') \<Longrightarrow>
     reachable B s'"
| cache_twoStepPolychrome:
    "reachable B s \<Longrightarrow> make_cache_twoStepPolychrome B kt s = (rest, s') \<Longrightarrow> reachable B s'"
| transform: "reachable B s \<Longrightarrow> reachable B (s\<lparr>transforms := transforms s + 1\<rparr>)"
| cleared: "reachable B s \<Longrightarrow> reachable B (clear_cache s)"

text \<open>A cache within its capacity, no key stored twice.\<close>

definition cache_bounded :: "('k, 'v) lru_cache \<Rightarrow> bool" where
  "cache_bounded c \<longleftrightarrow> length (entries c) \<le> cache_size \<and> distinct (map fst (entries c))"

definition caches_bounded :: "pstate \<Rightarrow> bool" where
  "caches_bounded s \<longleftrightarrow>
     cache_bounded (quad_cache s) \<and> cache_bounded (asp_cache s) \<and> cache_bounded (poly_cache s) \<and>
     cache_bounded (sasp_cache s) \<and> cache_bounded (spoly_cache s) \<and>
     cache_bounded (twostep_cache s)"

text \<open>
  The keys under which a kernel function can have returned: the functions of the
  angular-spectrum family raise when the shift flag is set, the two single-wavelength
  ones also when \<open>nlambda > 1\<close>.
\<close>

definition asp_key_valid :: "asp_key \<Rightarrow> bool" where
  "asp_key_valid k =
     (case k of (shift, n_osm, n_psm, N, z, wl, L, n_lambda, on_gpu) \<Rightarrow>
        \<not> shift \<and> n_lambda \<le> 1)"

definition poly_key_valid :: "poly_key \<Rightarrow> bool" where
  "poly_key_valid k = (case k of (model, shift, rest) \<Rightarrow> \<not> shift)"

definition sasp_key_valid :: "sasp_key \<Rightarrow> bool" where
  "sasp_key_valid k =
     (case k of (model, shift, n_lambda, rest) \<Rightarrow> \<not> shift \<and> n_lambda \<le> 1)"

definition spoly_key_valid :: "spoly_key \<Rightarrow> bool" where
  "spoly_key_valid k = (case k of (shift, rest) \<Rightarrow> \<not> shift)"

definition twostep_key_valid :: "twostep_key \<Rightarrow> bool" where
  "twostep_key_valid k = (case k of (shift, rest) \<Rightarrow> \<not> shift)"

definition keys_valid :: "pstate \<Rightarrow> bool" where
  "keys_valid s \<longleftrightarrow>
     list_all (\<lambda>e. asp_key_valid (fst e)) (entries (asp_cache s)) \<and>
     list_all (\<lambda>e. poly_key_valid (fst e)) (entries (poly_cache s)) \<and>
     list_all (\<lambda>e. sasp_key_valid (fst e)) (entries (sasp_cache s)) \<and>
     list_all (\<lambda>e. spoly_key_valid (fst e)) (entries (spoly_cache s)) \<and>
     list_all (\<lambda>e. twostep_key_valid (fst e)) (entries (twostep_cache s))"

definition state_ok :: "pstate \<Rightarrow> bool" where
  "state_ok s \<longleftrightarrow> caches_bounded s \<and> keys_valid s"

text \<open>
  The wrapper, seen through a cache's accessor and update function. \<open>lens get upd\<close>
  names the laws every cache field of the state record obeys.
\<close>

definition lens ::
  "(pstate \<Rightarrow> ('k, 'v) lru_cache) \<Rightarrow>
   ((('k, 'v) lru_cache \<Rightarrow> ('k, 'v) lru_cache) \<Rightarrow> pstate \<Rightarrow> pstate) \<Rightarrow> bool" where
  "lens get upd \<longleftrightarrow>
     (\<forall>f s. get (upd f s) = f (get s)) \<and>
     (\<forall>f g s. f (get s) = g (get s) \<longrightarrow> upd f s = upd g s) \<and>
     (\<forall>s n. get (s\<lparr>next_oid := n\<rparr>) = get s)"

text \<open>An invariant that running a transform cannot break.\<close>

definition tick_stable :: "(pstate \<Rightarrow> bool) \<Rightarrow> bool" where
  "tick_stable I \<longleftrightarrow> (\<forall>s. I s \<longrightarrow> I (s\<lparr>transforms := transforms s + 1\<rparr>))"

section \<open>Requests to a cache\<close>

text \<open>
  One use of key \<open>k\<close>, on the list of cached keys in order of use: \<open>k\<close> becomes the
  most recently used key, and what no longer fits is dropped from the far end.
\<close>

definition lru_step :: "'k \<Rightarrow> 'k list \<Rightarrow> 'k list" where
  "lru_step k ks = take cache_size (k # removeAll k ks)"

text \<open>A sequence of calls of \<^verbatim>\<open>__make_quad_phase\<close>, oldest first.\<close>

definition quad_requests :: "quad_key list \<Rightarrow> pstate \<Rightarrow> pstate" where
  "quad_requests ks s = fold (\<lambda>k s. snd (make_quad_phase k s)) ks s"

text \<open>The kernel request of the spec's scenario, and the state after it.\<close>

definition k_spec :: quad_key where
  "k_spec = (1 / 100, 5 / 10 ^ 7, 64, 1 / 10 ^ 5, Keyword False)"

definition s_spec :: pstate where
  "s_spec = init_state
     \<lparr>quad_cache :=
        \<lparr>entries = [(k_spec, 0, quad_phase_array (1 / 100) (5 / 10 ^ 7) 64 (1 / 10 ^ 5))],
         hits = 0, misses = 1\<rparr>,
      next_oid := 1\<rparr>"

text \<open>Eleven distinct keys, told apart by their distance.\<close>

definition key_z :: "nat \<Rightarrow> quad_key" where
  "key_z n = (real n, 1, 1, 1, Keyword False)"

definition p_shift :: params where
  "p_shift = \<lparr>propagatorType = ''ASP'', fftshiftSwitch = True, gpuSwitch = False\<rparr>"

definition p_asp :: params where
  "p_asp = \<lparr>propagatorType = ''ASP'', fftshiftSwitch = False, gpuSwitch = False\<rparr>"

definition r_two_lambda :: reconstruction where
  "r_two_lambda = r_1x1\<lparr>nlambda := 2, spectralDensity := [1, 2]\<rparr>"

text \<open>Ten keys in turn, then the first one again.\<close>

definition hist0 :: "quad_key list" where
  "hist0 = map key_z [1, 2, 3, 4, 5, 6, 7, 8, 9, 10, 1]"

section \<open>The transfer function as the spec states it\<close>

text \<open>
  The free-space transfer function in the spec's words,
  \<open>H = mask \<sqdot> exp(i k z sqrt(1 - (\<lambda> Fx)\<^sup>2 - (\<lambda> Fy)\<^sup>2))\<close>, the mask zero where the
  argument of the root is not positive; on the frequency grid of \<^verbatim>\<open>aspw\<close>.
\<close>

definition aspw_H_spec :: "nat \<Rightarrow> real \<Rightarrow> real \<Rightarrow> real \<Rightarrow> matrix" where
  "aspw_H_spec N z wl L =
     (let k = 2 * pi / wl;
          (Fx, Fy) = aspw_grid N L
      in map2_m (\<lambda>x y. of_bool (1 - (wl * x)\<^sup>2 - (wl * y)\<^sup>2 > 0) *
                        cis (k * z * sqrt (1 - (wl * x)\<^sup>2 - (wl * y)\<^sup>2))) Fx Fy)"

section \<open>Shapes\<close>

text \<open>A two-dimensional array of \<open>N\<close> by \<open>N\<close> entries; a field all of whose slices are.\<close>

definition square_m :: "nat \<Rightarrow> 'a list list \<Rightarrow> bool" where
  "square_m N x \<longleftrightarrow> length x = N \<and> list_all (\<lambda>row. length row = N) x"

definition square_f :: "nat \<Rightarrow> field \<Rightarrow> bool" where
  "square_f N f \<longleftrightarrow> list_all (list_all (list_all (list_all (square_m N)))) f"

text \<open>The grid size a cache key asks for.\<close>

definition quad_grid :: "quad_key \<Rightarrow> nat" where
  "quad_grid k = (case k of (z, wl, N, rest) \<Rightarrow> N)"

definition asp_grid :: "asp_key \<Rightarrow> nat" where
  "asp_grid k = (case k of (shift, n_osm, n_psm, N, rest) \<Rightarrow> N)"

definition poly_grid :: "poly_key \<Rightarrow> nat" where
  "poly_grid k = (case k of (model, shift, n_osm, n_psm, N, rest) \<Rightarrow> N)"

definition sasp_grid :: "sasp_key \<Rightarrow> nat" where
  "sasp_grid k = (case k of (model, shift, n_lambda, n_osm, n_psm, N, rest) \<Rightarrow> N)"

definition spoly_grid :: "spoly_key \<Rightarrow> nat" where
  "spoly_grid k = (case k of (shift, n_lambda, n_osm, n_psm, z, N, rest) \<Rightarrow> N)"

definition twostep_grid :: "twostep_key \<Rightarrow> nat" where
  "twostep_grid k = (case k of (shift, n_lambda, n_osm, n_psm, N, rest) \<Rightarrow> N)"

text \<open>
  A field of two by two pixels, a reconstruction state whose grid size is three, and
  the state in which the Fresnel kernel for that grid size is cached.
\<close>

definition f_2x2 :: field where
  "f_2x2 = [[[[[[1, 1], [1, 1]]]]]]"

definition r_np3 :: reconstruction where
  "r_np3 = r_1x1\<lparr>Np := 3\<rparr>"

definition p_fresnel :: params where
  "p_fresnel = \<lparr>propagatorType = ''Fresnel'', fftshiftSwitch = False, gpuSwitch = False\<rparr>"

definition k_q3 :: quad_key where
  "k_q3 = (1, 1, 3, 2, Keyword False)"

definition s_q3 :: pstate where
  "s_q3 = init_state
     \<lparr>quad_cache := \<lparr>entries = [(k_q3, 0, quad_phase_array 1 1 3 2)], hits = 0, misses = 1\<rparr>,
      next_oid := 1\<rparr>"

definition r_np2 :: reconstruction where
  "r_np2 = r_1x1\<lparr>Np := 2\<rparr>"

text \<open>
  No cached kernel has grid size \<open>N\<close>; and the effect on a cache of a request that
  missed: the miss is counted, no hit is, and either the kernel function raised and the
  entries are as before, or the entry in front is one for grid size \<open>N\<close>.
\<close>

definition new_grid :: "('k \<Rightarrow> nat) \<Rightarrow> nat \<Rightarrow> ('k, 'v) lru_cache \<Rightarrow> bool" where
  "new_grid grid N c \<longleftrightarrow> list_all (\<lambda>e. grid (fst e) \<noteq> N) (entries c)"

definition rebuilt :: "('k \<Rightarrow> nat) \<Rightarrow> nat \<Rightarrow> ('k, 'v) lru_cache \<Rightarrow> ('k, 'v) lru_cache \<Rightarrow> bool" where
  "rebuilt grid N c c' \<longleftrightarrow>
     misses c' = misses c + 1 \<and> hits c' = hits c \<and>
     (entries c' = entries c \<or> (case entries c' of [] \<Rightarrow> False | e # es \<Rightarrow> grid (fst e) = N))"

text \<open>Every cached quadratic phase is the array its key describes.\<close>

definition quad_of_key :: "quad_key \<Rightarrow> matrix" where
  "quad_of_key k = (case k of (z, wl, N, dx, g) \<Rightarrow> quad_phase_array z wl N dx)"

definition quad_coherent :: "pstate \<Rightarrow> bool" where
  "quad_coherent s \<longleftrightarrow>
     list_all (\<lambda>e. snd (snd e) = quad_of_key (fst e)) (entries (quad_cache s))"

text \<open>
  One pixel of a millimetre, a wavelength of 500 nm and a distance of 1.5 m: the only
  frequency of the grid lies outside the band limit.
\<close>

definition r_bl :: reconstruction where
  "r_bl = r_1x1\<lparr>zo := 3 / 2, wavelength := 1 / 2000000, Lp := 1 / 1000\<rparr>"

definition k_bl :: asp_key where
  "k_bl = (False, 1, 1, 1, 3 / 2, 1 / 2000000, 1 / 1000, 1, False)"

definition s_bl :: pstate where
  "s_bl = init_state
     \<lparr>asp_cache := \<lparr>entries = [(k_bl, 0, [[[[[[0]]]]]])], hits = 0, misses = 1\<rparr>,
      next_oid := 1, transforms := 2\<rparr>"

text \<open>
  The inverse transform of the scaled angular-spectrum models as the specification
  words it: both factors conjugated, \<open>Q2\<close> applied in the frequency plane and \<open>Q1\<close>
  afterwards.
\<close>

definition scaled_inverse_spec :: "backend \<Rightarrow> field \<Rightarrow> field \<Rightarrow> field \<Rightarrow> error + field" where
  "scaled_inverse_spec B flds Q1 Q2 =
     (case mul_ff (map_f (fft2c B None) flds) (conj_f Q2) of
        Inl e \<Rightarrow> Inl e
      | Inr FQ \<Rightarrow> mul_ff (conj_f Q1) (map_f (ifft2c B None) FQ))"

text \<open>
  Two by two pixels of size one in the object plane, pixel size one half in the probe
  plane, one wavelength of one half at distance one, and the two kernels of that
  configuration.
\<close>

definition r_scaled :: reconstruction where
  "r_scaled = r_1x1\<lparr>Np := 2, dxp := 1 / 2, spectralDensity := [1 / 2]\<rparr>"

definition p_spoly :: params where
  "p_spoly =
     \<lparr>propagatorType = ''scaledPolychromeASP'', fftshiftSwitch = False, gpuSwitch = False\<rparr>"

definition Q1_scaled :: matrix where
  "Q1_scaled = [[0, 0], [0, 1]]"

definition Q2_scaled :: matrix where
  "Q2_scaled = [[- \<i>, cis (- (pi / 4))], [cis (- (pi / 4)), 1]]"

definition k_sasp :: sasp_key where
  "k_sasp = (None, False, 1, 1, 1, 2, 1, 1 / 2, 1, 1 / 2, Keyword False)"

definition k_spoly :: spoly_key where
  "k_spoly = (False, 1, 1, 1, 1, 2, [1 / 2], 1, 1 / 2, False)"

definition s_scaled :: pstate where
  "s_scaled = init_state
     \<lparr>sasp_cache :=
        \<lparr>entries = [(k_sasp, 0, [[[[Q1_scaled]]]], [[[[Q2_scaled]]]])], hits = 0, misses = 1\<rparr>,
      spoly_cache :=
        \<lparr>entries = [(k_spoly, 1, [[[[Q1_scaled]]]], [[[[Q2_scaled]]]])], hits = 0, misses = 1\<rparr>,
      next_oid := 2, transforms := 2\<rparr>"

definition r_scaled_mono :: reconstruction where
  "r_scaled_mono = r_1x1\<lparr>Np := 2, wavelength := 1 / 2, dxd := 1 / 2\<rparr>"

definition p_sasp :: params where
  "p_sasp = \<lparr>propagatorType = ''scaledASP'', fftshiftSwitch = False, gpuSwitch = False\<rparr>"

section \<open>Properties\<close>

subsection \<open>The monad\<close>

lemmas monad_defs = bindM_def returnM_def raiseM_def liftE_def tick_def

lemma bindM_returnM [simp]: "bindM (returnM x) f = f x"
  by (simp add: bindM_def returnM_def)

lemma bindM_raiseM [simp]: "bindM (raiseM e) f = raiseM e"
  by (simp add: bindM_def raiseM_def)

subsection \<open>The registry\<close>

lemma lookup_forward_unknown:
  "name \<notin> set supported_models \<Longrightarrow> lookup forward_lookup_dictionary name = raiseM (KeyError name)"
  by (simp add: lookup_def forward_lookup_dictionary_def supported_models_def)

lemma lookup_reverse_unknown:
  "name \<notin> set supported_models \<Longrightarrow> lookup reverse_lookup_dictionary name = raiseM (KeyError name)"
  by (simp add: lookup_def reverse_lookup_dictionary_def supported_models_def)

text \<open>
  C7: a model name outside the seven supported ones makes both adapters fail with the
  \<open>KeyError\<close> of the dictionary lookup, in an unchanged state, whatever the field
  argument is; and each supported name resolves to the forward, respectively inverse,
  function of that model, called with the defaults of \<open>inverse\<close> and \<open>z\<close>.
\<close>

theorem registry_lookup:
  "(propagatorType p \<notin> set supported_models \<longrightarrow>
      object2detector B flds p r s = (Inl (KeyError (propagatorType p)), s) \<and>
      detector2object B flds p r s = (Inl (KeyError (propagatorType p)), s)) \<and>
   object2detector B flds (p\<lparr>propagatorType := ''Fraunhofer''\<rparr>) r =
     propagate_fraunhofer B (case flds of None \<Rightarrow> esw r | Some f \<Rightarrow> f)
       (p\<lparr>propagatorType := ''Fraunhofer''\<rparr>) r None \<and>
   object2detector B flds (p\<lparr>propagatorType := ''Fresnel''\<rparr>) r =
     propagate_fresnel B (case flds of None \<Rightarrow> esw r | Some f \<Rightarrow> f)
       (p\<lparr>propagatorType := ''Fresnel''\<rparr>) r None \<and>
   object2detector B flds (p\<lparr>propagatorType := ''ASP''\<rparr>) r =
     propagate_ASP B (case flds of None \<Rightarrow> esw r | Some f \<Rightarrow> f)
       (p\<lparr>propagatorType := ''ASP''\<rparr>) r False None \<and>
   object2detector B flds (p\<lparr>propagatorType := ''polychromeASP''\<rparr>) r =
     propagate_polychromeASP B (case flds of None \<Rightarrow> esw r | Some f \<Rightarrow> f)
       (p\<lparr>propagatorType := ''polychromeASP''\<rparr>) r False None \<and>
   object2detector B flds (p\<lparr>propagatorType := ''scaledASP''\<rparr>) r =
     propagate_scaledASP B (case flds of None \<Rightarrow> esw r | Some f \<Rightarrow> f)
       (p\<lparr>propagatorType := ''scaledASP''\<rparr>) r False None \<and>
   object2detector B flds (p\<lparr>propagatorType := ''scaledPolychromeASP''\<rparr>) r =
     propagate_scaledPolychromeASP B (case flds of None \<Rightarrow> esw r | Some f \<Rightarrow> f)
       (p\<lparr>propagatorType := ''scaledPolychromeASP''\<rparr>) r False None \<and>
   object2detector B flds (p\<lparr>propagatorType := ''twoStepPolychrome''\<rparr>) r =
     propagate_twoStepPolychrome B (case flds of None \<Rightarrow> esw r | Some f \<Rightarrow> f)
       (p\<lparr>propagatorType := ''twoStepPolychrome''\<rparr>) r False None \<and>
   detector2object B flds (p\<lparr>propagatorType := ''Fraunhofer''\<rparr>) r =
     propagate_fraunhofer_inv B (case flds of None \<Rightarrow> ESW r | Some f \<Rightarrow> f)
       (p\<lparr>propagatorType := ''Fraunhofer''\<rparr>) r None \<and>
   detector2object B flds (p\<lparr>propagatorType := ''Fresnel''\<rparr>) r =
     propagate_fresnel_inv B (case flds of None \<Rightarrow> ESW r | Some f \<Rightarrow> f)
       (p\<lparr>propagatorType := ''Fresnel''\<rparr>) r None \<and>
   detector2object B flds (p\<lparr>propagatorType := ''ASP''\<rparr>) r =
     propagate_ASP_inv B (case flds of None \<Rightarrow> ESW r | Some f \<Rightarrow> f)
       (p\<lparr>propagatorType := ''ASP''\<rparr>) r None \<and>
   detector2object B flds (p\<lparr>propagatorType := ''polychromeASP''\<rparr>) r =
     propagate_polychromeASP_inv B (case flds of None \<Rightarrow> ESW r | Some f \<Rightarrow> f)
       (p\<lparr>propagatorType := ''polychromeASP''\<rparr>) r None \<and>
   detector2object B flds (p\<lparr>propagatorType := ''scaledASP''\<rparr>) r =
     propagate_scaledASP_inv B (case flds of None \<Rightarrow> ESW r | Some f \<Rightarrow> f)
       (p\<lparr>propagatorType := ''scaledASP''\<rparr>) r None \<and>
   detector2object B flds (p\<lparr>propagatorType := ''scaledPolychromeASP''\<rparr>) r =
     propagate_scaledPolychromeASP_inv B (case flds of None \<Rightarrow> ESW r | Some f \<Rightarrow> f)
       (p\<lparr>propagatorType := ''scaledPolychromeASP''\<rparr>) r None \<and>
   detector2object B flds (p\<lparr>propagatorType := ''twoStepPolychrome''\<rparr>) r =
     propagate_twoStepPolychrome_inv B (case flds of None \<Rightarrow> ESW r | Some f \<Rightarrow> f)
       (p\<lparr>propagatorType := ''twoStepPolychrome''\<rparr>) r None"
proof -
  have unknown: "propagatorType p \<notin> set supported_models \<longrightarrow>
      object2detector B flds p r s = (Inl (KeyError (propagatorType p)), s) \<and>
      detector2object B flds p r s = (Inl (KeyError (propagatorType p)), s)"
    by (simp add: object2detector_def detector2object_def lookup_forward_unknown
        lookup_reverse_unknown raiseM_def bindM_def Let_def)
  have fwd: "\<And>name. object2detector B flds (p\<lparr>propagatorType := name\<rparr>) r =
      bindM (lookup forward_lookup_dictionary name)
        (\<lambda>method. method B (case flds of None \<Rightarrow> esw r | Some f \<Rightarrow> f) (p\<lparr>propagatorType := name\<rparr>) r)"
    by (simp add: object2detector_def)
  have rev: "\<And>name. detector2object B flds (p\<lparr>propagatorType := name\<rparr>) r =
      bindM (lookup reverse_lookup_dictionary name)
        (\<lambda>method. method B (case flds of None \<Rightarrow> ESW r | Some f \<Rightarrow> f) (p\<lparr>propagatorType := name\<rparr>) r)"
    by (simp add: detector2object_def)
  show ?thesis
    unfolding fwd rev
    using unknown
    by (simp add: lookup_def forward_lookup_dictionary_def reverse_lookup_dictionary_def)
qed

theorem registry_lookup_witness:
  "propagatorType p_unknown \<notin> set supported_models \<and>
   object2detector ref_backend (Some in0) p_unknown r_1x1 init_state =
     (Inl (KeyError ''Rayleigh''), init_state) \<and>
   detector2object ref_backend (Some in0) p_unknown r_1x1 init_state =
     (Inl (KeyError ''Rayleigh''), init_state)"
  using registry_lookup [of p_unknown ref_backend "Some in0" r_1x1 init_state]
  by (simp add: p_unknown_def supported_models_def)

subsection \<open>Evaluation on a grid of one pixel\<close>

text \<open>On a grid of one pixel the unitary transform is the identity, shifted or not.\<close>

lemma cis_pi_2 [simp]: "cis (pi * 2) = 1"
  using cis_2pi by (simp add: mult.commute)

lemma upt_1 [simp]: "[0..<1] = [0]"
  by (simp add: upt_rec)

lemma dft2_1x1 [simp]: "dft2 sg [[a]] = [[a]]"
  by (simp add: dft2_def ncols_def)

lemma ref_fft2c_1x1 [simp]: "ref_fft2c sw [[a]] = [[a]]"
  by (simp add: ref_fft2c_def fftshift_def ifftshift_def)

lemma ref_ifft2c_1x1 [simp]: "ref_ifft2c sw [[a]] = [[a]]"
  by (simp add: ref_ifft2c_def fftshift_def ifftshift_def)

lemma ref_backend_sel [simp]:
  "fft2c ref_backend = ref_fft2c" "ifft2c ref_backend = ref_ifft2c"
  "circ ref_backend = ref_circ" "isGpuArray ref_backend = (\<lambda>f. False)"
  by (simp_all add: ref_backend_def)

lemma mul_mm_1x1 [simp]: "mul_mm [[a]] [[b]] = Inr [[a * b]]"
  by (simp add: mul_mm_def bc2_def mul_c_def)

lemma mul_fm_1x1 [simp]: "mul_fm [[[[[[a]]]]]] [[b]] = Inr [[[[[[a * b]]]]]]"
  by (simp add: mul_fm_def)

lemma mul_ff_1x1 [simp]: "mul_ff [[[[[[a]]]]]] [[[[[[b]]]]]] = Inr [[[[[[a * b]]]]]]"
  by (simp add: mul_ff_def bc2_def)

lemmas array_defs = mul_fm_def mul_ff_def mul_mm_def bc2_def mul_c_def map_f_def map_m_def
  map2_m_def conj_f_def conj_m_def ncols_def last_axis_def ones_m_def meshgrid_def linspace_def

lemma aspw_H_1: "aspw_H (Suc 0) 0 1 1 = [[1]]"
  by (simp add: aspw_H_def aspw_grid_def array_defs Let_def power2_eq_square)

lemma aspw_W_1: "aspw_W ref_backend (Suc 0) 0 1 1 = [[1]]"
  by (simp add: aspw_W_def aspw_grid_def array_defs Let_def ref_circ_def power2_eq_square)

lemma quad_1: "quad_phase_array 1 1 (Suc 0) 2 = [[1]]"
  by (simp add: quad_phase_array_def array_defs Let_def)

lemma aspw_1:
  "aspw ref_backend [[1]] 0 1 1 s = (Inr ([[1]], [[1]]), s\<lparr>transforms := transforms s + 2\<rparr>)"
  by (simp add: aspw_def aspw_H_1 aspw_W_1 ncols_def Let_def monad_defs fft2c_m_def ifft2c_m_def)

lemma twostep_body_1:
  "make_cache_twoStepPolychrome_body ref_backend k_twostep s =
     bindM (make_quad_phase (1, 1, 1, 2, Positional False)) (\<lambda>(oid, q). returnM ([[[[[[1]]]]]], q))
       (s\<lparr>transforms := transforms s + 2\<rparr>)"
  by (simp add: make_cache_twoStepPolychrome_body_def k_twostep_def kernel_stack_def index_sd_def
      ones_m_def aspw_1 bindM_def returnM_def)

lemma twostep_maker_1:
  "make_cache_twoStepPolychrome ref_backend k_twostep init_state =
     (Inr (1, [[[[[[1]]]]]], [[1]]), s_twostep1)"
  by (simp add: make_cache_twoStepPolychrome_def twostep_body_1 make_quad_phase_def lru_call_def
      cache_find_def cache_insert_def cache_size_def init_state_def empty_cache_def quad_1
      bindM_def returnM_def s_twostep1_def)

lemma twostep_maker_hit:
  "make_cache_twoStepPolychrome ref_backend k_twostep s_twostep2 =
     (Inr (1, [[[[[[1]]]]]], [[1]]),
      s_twostep2\<lparr>twostep_cache :=
        \<lparr>entries = [(k_twostep, 1, ([[[[[[1]]]]]], [[1]]))], hits = 1, misses = 1\<rparr>\<rparr>)"
  by (simp add: make_cache_twoStepPolychrome_def lru_call_def cache_find_def cache_touch_def
      s_twostep2_def s_twostep1_def init_state_def)

lemma twostep_inverse_first:
  "propagate_twoStepPolychrome ref_backend in0 p_twostep r_1x1 True None init_state =
     (Inr ([[[[[[1]]]]]], [[[[[[7]]]]]]), s_twostep2)"
  using twostep_maker_1
  by (simp add: propagate_twoStepPolychrome_def p_twostep_def r_1x1_def distance_def
      k_twostep_def in0_def bindM_def returnM_def liftE_def tick_def fft2c_f_def ifft2c_f_def
      map_f_def conj_f_def conj_m_def map_m_def s_twostep2_def s_twostep1_def init_state_def)

lemma twostep_inverse_second:
  "propagate_twoStepPolychrome ref_backend (ESW r_1x1) p_twostep r_1x1 True None s_twostep2 =
     (Inr ([[[[[[1]]]]]], [[[[[[5]]]]]]), s_twostep3)"
  using twostep_maker_hit
  by (simp add: propagate_twoStepPolychrome_def p_twostep_def r_1x1_def distance_def
      k_twostep_def bindM_def returnM_def liftE_def tick_def fft2c_f_def ifft2c_f_def
      map_f_def conj_f_def conj_m_def map_m_def s_twostep3_def s_twostep2_def s_twostep1_def
      init_state_def)

lemma twostep_inv_1x1:
  "propagate_twoStepPolychrome_inv ref_backend in0 p_twostep r_1x1 None init_state =
     (Inr ([[[[[[5]]]]]], [[[[[[7]]]]]]), s_twostep3)"
  by (simp add: propagate_twoStepPolychrome_inv_def bindM_def returnM_def
      twostep_inverse_first twostep_inverse_second)

lemma fraunhofer_1x1:
  "propagate_fraunhofer ref_backend in0 p_fraunhofer r_1x1 None init_state =
     (Inr ([[[[[[1]]]]]], [[[[[[7]]]]]]), init_state\<lparr>transforms := 1\<rparr>)"
  by (simp add: propagate_fraunhofer_def in0_def r_1x1_def bindM_def returnM_def tick_def
      fft2c_f_def map_f_def init_state_def)

subsection \<open>The first component of a propagator's result\<close>


lemmas esw_splits = prod.splits sum.splits if_splits

lemma fraunhofer_esw:
  "propagate_fraunhofer B flds p r z s = (Inr (a, b), s') \<Longrightarrow> a = esw r"
  "propagate_fraunhofer_inv B flds p r z s = (Inr (a, b), s') \<Longrightarrow> a = esw r"
  by (auto simp: propagate_fraunhofer_def propagate_fraunhofer_inv_def bindM_def returnM_def
      split: esw_splits)

lemma fresnel_esw:
  "propagate_fresnel B flds p r z s = (Inr (a, b), s') \<Longrightarrow> a = esw r"
  "propagate_fresnel_inv B flds p r z s = (Inr (a, b), s') \<Longrightarrow> a = esw r"
  by (auto simp: propagate_fresnel_def propagate_fresnel_inv_def bindM_def returnM_def Let_def
      split: esw_splits)

lemma ASP_esw:
  "propagate_ASP B flds p r i z s = (Inr (a, b), s') \<Longrightarrow> a = esw r"
  by (auto simp: propagate_ASP_def bindM_def returnM_def raiseM_def Let_def split: esw_splits)

lemma polychromeASP_esw:
  "propagate_polychromeASP B flds p r i z s = (Inr (a, b), s') \<Longrightarrow> a = esw r"
  by (auto simp: propagate_polychromeASP_def bindM_def returnM_def Let_def split: esw_splits)

lemma scaledASP_esw:
  "propagate_scaledASP B flds p r i z s = (Inr (a, b), s') \<Longrightarrow> a = esw r"
  by (auto simp: propagate_scaledASP_def bindM_def returnM_def Let_def split: esw_splits)

lemma scaledPolychromeASP_esw:
  "propagate_scaledPolychromeASP B flds p r i z s = (Inr (a, b), s') \<Longrightarrow> a = esw r"
  by (auto simp: propagate_scaledPolychromeASP_def bindM_def returnM_def Let_def split: esw_splits)

lemma twoStepPolychrome_esw:
  "propagate_twoStepPolychrome B flds p r i z s = (Inr (a, b), s') \<Longrightarrow> a = esw r"
  by (auto simp: propagate_twoStepPolychrome_def bindM_def returnM_def Let_def split: esw_splits)

lemma esw_first_aux:
  "m \<in> set esw_returning \<Longrightarrow> m B flds p r z s = (Inr (a, b), s') \<Longrightarrow> a = esw r"
  unfolding esw_returning_def
  by (auto simp: propagate_ASP_inv_def propagate_polychromeASP_inv_def propagate_scaledASP_inv_def
      propagate_scaledPolychromeASP_inv_def
      dest: fraunhofer_esw fresnel_esw ASP_esw polychromeASP_esw scaledASP_esw
        scaledPolychromeASP_esw twoStepPolychrome_esw)



subsection \<open>Default fields of the adapters\<close>

text \<open>
  C10: with no field given, \<^verbatim>\<open>object2detector\<close> propagates \<^verbatim>\<open>reconstruction.esw\<close> and
  \<^verbatim>\<open>detector2object\<close> propagates \<^verbatim>\<open>reconstruction.ESW\<close>; and \<^verbatim>\<open>object2detector\<close> fails
  on an unsupported model name also when no field is given, since the lookup comes
  first.
\<close>

theorem adapter_defaults:
  "object2detector B None p r = object2detector B (Some (esw r)) p r \<and>
   detector2object B None p r = detector2object B (Some (ESW r)) p r \<and>
   (propagatorType p \<notin> set supported_models \<longrightarrow>
      object2detector B None p r s = (Inl (KeyError (propagatorType p)), s))"
  by (simp add: object2detector_def detector2object_def lookup_forward_unknown raiseM_def bindM_def)

theorem adapter_defaults_witness:
  "propagatorType p_unknown \<notin> set supported_models \<and>
   object2detector ref_backend None p_unknown r_1x1 init_state =
     (Inl (KeyError ''Rayleigh''), init_state) \<and>
   fst (object2detector ref_backend None p_fraunhofer r_1x1 init_state) =
     Inr ([[[[[[1]]]]]], [[[[[[1]]]]]]) \<and>
   fst (detector2object ref_backend None p_fraunhofer r_1x1 init_state) =
     Inr ([[[[[[1]]]]]], [[[[[[5]]]]]])"
proof -
  have a: "propagatorType p_unknown \<notin> set supported_models"
    by (simp add: p_unknown_def supported_models_def)
  have n: "propagatorType p_unknown = ''Rayleigh''"
    by (simp add: p_unknown_def)
  have "object2detector ref_backend None p_unknown r_1x1 init_state =
     (Inl (KeyError (propagatorType p_unknown)), init_state)"
    using adapter_defaults [of ref_backend p_unknown r_1x1 init_state] a by blast
  then have b: "object2detector ref_backend None p_unknown r_1x1 init_state =
     (Inl (KeyError ''Rayleigh''), init_state)"
    by (simp only: n)
  have c: "fst (object2detector ref_backend (Some (esw r_1x1)) p_fraunhofer r_1x1 init_state) =
     Inr ([[[[[[1]]]]]], [[[[[[1]]]]]])"
    by (simp add: object2detector_def lookup_def forward_lookup_dictionary_def p_fraunhofer_def
        r_1x1_def propagate_fraunhofer_def monad_defs fft2c_f_def map_f_def)
  have d: "fst (detector2object ref_backend (Some (ESW r_1x1)) p_fraunhofer r_1x1 init_state) =
     Inr ([[[[[[1]]]]]], [[[[[[5]]]]]])"
    by (simp add: detector2object_def lookup_def reverse_lookup_dictionary_def p_fraunhofer_def
        r_1x1_def propagate_fraunhofer_inv_def monad_defs ifft2c_f_def map_f_def)
  have e: "object2detector ref_backend None p_fraunhofer r_1x1 =
      object2detector ref_backend (Some (esw r_1x1)) p_fraunhofer r_1x1"
    and f: "detector2object ref_backend None p_fraunhofer r_1x1 =
      detector2object ref_backend (Some (ESW r_1x1)) p_fraunhofer r_1x1"
    using adapter_defaults [of ref_backend p_fraunhofer r_1x1 init_state] by blast+
  show ?thesis
    using a b c d by (simp only: e f) simp
qed

subsection \<open>Rules for invariants\<close>

named_theorems pres

lemma preserves_returnM [pres]: "preserves I (returnM x)"
  by (simp add: preserves_def returnM_def)

lemma preserves_raiseM [pres]: "preserves I (raiseM e)"
  by (simp add: preserves_def raiseM_def)

lemma preserves_liftE [pres]: "preserves I (liftE x)"
  by (simp add: preserves_def liftE_def)

lemma preserves_bindM [pres]:
  assumes m: "preserves I m" and f: "\<And>x. preserves I (f x)"
  shows "preserves I (bindM m f)"
  unfolding preserves_def
proof (intro allI impI)
  fix s r s'
  assume I: "I s" and run: "bindM m f s = (r, s')"
  obtain r1 s1 where ms: "m s = (r1, s1)"
    by (cases "m s")
  with m I have I1: "I s1"
    by (auto simp: preserves_def)
  show "I s'"
  proof (cases r1)
    case (Inl e)
    with run ms I1 show ?thesis
      by (simp add: bindM_def)
  next
    case (Inr x)
    with run ms have "f x s1 = (r, s')"
      by (simp add: bindM_def)
    with f I1 show ?thesis
      unfolding preserves_def by blast
  qed
qed

lemma preserves_case_prod [pres]:
  "(\<And>a b. preserves I (f a b)) \<Longrightarrow> preserves I (case x of (a, b) \<Rightarrow> f a b)"
  by (cases x) simp

lemma preserves_if [pres]:
  "(c \<Longrightarrow> preserves I m) \<Longrightarrow> (\<not> c \<Longrightarrow> preserves I n) \<Longrightarrow> preserves I (if c then m else n)"
  by simp

lemma preserves_foldM [pres]:
  "(\<And>x acc. preserves I (f x acc)) \<Longrightarrow> preserves I (foldM f xs acc)"
  by (induction xs arbitrary: acc) (auto intro!: pres)

lemma preserves_mapM [pres]:
  "(\<And>x. preserves I (f x)) \<Longrightarrow> preserves I (mapM f xs)"
  by (induction xs) (auto intro!: pres)

lemma preserves_tick:
  "(\<And>s. I s \<Longrightarrow> I (s\<lparr>transforms := transforms s + 1\<rparr>)) \<Longrightarrow> preserves I (tick x)"
  by (auto simp: preserves_def tick_def)

lemma preserves_index_sd [pres]: "preserves I (index_sd sd i)"
  by (auto simp: index_sd_def intro!: pres)

lemma preserves_transforms:
  assumes "tick_stable I"
  shows "preserves I (fft2c_m B sw x)" "preserves I (ifft2c_m B sw x)"
    "preserves I (fft2c_f B sw y)" "preserves I (ifft2c_f B sw y)"
  using assms
  by (auto simp: fft2c_m_def ifft2c_m_def fft2c_f_def ifft2c_f_def tick_stable_def
      intro!: preserves_tick)

lemma preserves_aspw: "tick_stable I \<Longrightarrow> preserves I (aspw B u z wl L)"
  by (auto simp: aspw_def Let_def intro!: pres preserves_transforms)

lemma preserves_scaledASP: "tick_stable I \<Longrightarrow> preserves I (scaledASP B u z wl dx dq)"
  by (auto simp: scaledASP_def Let_def intro!: pres preserves_transforms)

lemma preserves_kernel_stack:
  "(\<And>l. preserves I (kern l)) \<Longrightarrow> preserves I (kernel_stack a b c kern)"
  by (auto simp: kernel_stack_def intro!: pres)

lemma preserves_ASP_body:
  "tick_stable I \<Longrightarrow> preserves I (make_transferfunction_ASP_body B k)"
  by (auto simp: make_transferfunction_ASP_body_def intro!: pres preserves_kernel_stack preserves_aspw
      split: prod.splits)

lemma preserves_poly_body:
  "tick_stable I \<Longrightarrow> preserves I (make_transferfunction_polychrome_ASP_body B k)"
  by (auto simp: make_transferfunction_polychrome_ASP_body_def
      intro!: pres preserves_kernel_stack preserves_aspw split: prod.splits)

lemma preserves_sasp_body:
  "tick_stable I \<Longrightarrow> preserves I (make_transferfunction_scaledASP_body B k)"
  by (auto simp: make_transferfunction_scaledASP_body_def scaledASP_outer_def scaledASP_inner_def
      intro!: pres preserves_scaledASP split: prod.splits)

lemma preserves_spoly_body:
  "(\<And>k'. preserves I (make_transferfunction_scaledASP B k')) \<Longrightarrow>
   preserves I (make_transferfunction_scaledPolychromeASP_body B k)"
  by (auto simp: make_transferfunction_scaledPolychromeASP_body_def scaledPolychromeASP_step_def
      intro!: pres split: prod.splits)

lemma preserves_twostep_body:
  "tick_stable I \<Longrightarrow> (\<And>k'. preserves I (make_quad_phase k')) \<Longrightarrow>
   preserves I (make_cache_twoStepPolychrome_body B k)"
  by (auto simp: make_cache_twoStepPolychrome_body_def
      intro!: pres preserves_kernel_stack preserves_aspw split: prod.splits)

text \<open>The cache wrapper keeps what a miss, the function, a hit and an insertion keep.\<close>

lemma preserves_lru_call:
  assumes miss: "\<And>s. I s \<Longrightarrow> I (upd (\<lambda>c. c\<lparr>misses := misses c + 1\<rparr>) s)"
    and body: "preserves I compute"
    and hit: "\<And>s ov. I s \<Longrightarrow> cache_find k (entries (get s)) = Some ov \<Longrightarrow>
       I (upd (\<lambda>c. c\<lparr>entries := cache_touch k ov (entries c), hits := hits c + 1\<rparr>) s)"
    and ins: "\<And>s0 s v. compute s0 = (Inr v, s) \<Longrightarrow> I s \<Longrightarrow>
       I (upd (\<lambda>c. c\<lparr>entries := cache_insert k (next_oid s, v) (entries c)\<rparr>)
            (s\<lparr>next_oid := next_oid s + 1\<rparr>))"
  shows "preserves I (lru_call get upd k compute)"
  unfolding preserves_def
proof (intro allI impI)
  fix s r s'
  assume I: "I s" and run: "lru_call get upd k compute s = (r, s')"
  show "I s'"
  proof (cases "cache_find k (entries (get s))")
    case (Some ov)
    with run have "s' = upd (\<lambda>c. c\<lparr>entries := cache_touch k ov (entries c), hits := hits c + 1\<rparr>) s"
      by (simp add: lru_call_def)
    with hit [OF I Some] show ?thesis
      by simp
  next
    case None
    let ?s1 = "upd (\<lambda>c. c\<lparr>misses := misses c + 1\<rparr>) s"
    obtain r1 s2 where c: "compute ?s1 = (r1, s2)"
      by (cases "compute ?s1")
    have I2: "I s2"
      using body miss [OF I] c by (auto simp: preserves_def)
    show ?thesis
    proof (cases r1)
      case (Inl e)
      with run None c have "s' = s2"
        by (simp add: lru_call_def)
      with I2 show ?thesis
        by simp
    next
      case (Inr v)
      with run None c have "s' = upd (\<lambda>c. c\<lparr>entries := cache_insert k (next_oid s2, v) (entries c)\<rparr>)
            (s2\<lparr>next_oid := next_oid s2 + 1\<rparr>)"
        by (simp add: lru_call_def)
      with ins [OF c [unfolded Inr] I2] show ?thesis
        by simp
    qed
  qed
qed

subsection \<open>What a call through the cache does to its own cache\<close>

lemma cache_find_Some_mem: "cache_find k es = Some ov \<Longrightarrow> (k, ov) \<in> set es"
  by (simp add: cache_find_def map_of_SomeD)

lemma cache_find_None_iff: "cache_find k es = None \<longleftrightarrow> k \<notin> fst ` set es"
  by (simp add: cache_find_def map_of_eq_None_iff)

lemma keys_cache_touch: "map fst (cache_touch k ov es) = k # removeAll k (map fst es)"
  by (induction es) (auto simp: cache_touch_def)

lemma filter_other_keys: "k \<notin> fst ` set es \<Longrightarrow> filter (\<lambda>e. fst e \<noteq> k) es = es"
  by (induction es) auto

lemma cache_find_touch: "cache_find k (cache_touch k ov es) = Some ov"
  by (simp add: cache_find_def cache_touch_def)

lemma touch_touch: "cache_touch k ov (cache_touch k ov es) = cache_touch k ov es"
  by (simp add: cache_touch_def)

lemma cache_insert_new:
  "k \<notin> fst ` set es \<Longrightarrow>
   cache_insert k ov es = (k, ov) # (if length es \<ge> cache_size then butlast es else es)"
  by (simp add: cache_insert_def)

lemma touch_insert:
  "k \<notin> fst ` set es \<Longrightarrow> cache_touch k ov (cache_insert k ov es) = cache_insert k ov es"
  by (auto simp: cache_insert_new cache_touch_def intro!: filter_other_keys dest: in_set_butlastD)

lemma cache_find_insert: "k \<notin> fst ` set es \<Longrightarrow> cache_find k (cache_insert k ov es) = Some ov"
  by (simp add: cache_insert_new cache_find_def)

lemma take_butlast_keys:
  "length ks \<le> cache_size \<Longrightarrow>
   (if length ks \<ge> cache_size then butlast ks else ks) = take (cache_size - 1) ks"
  by (auto simp: butlast_conv_take)

lemma keys_cache_insert:
  assumes "k \<notin> fst ` set es" "length es \<le> cache_size"
  shows "map fst (cache_insert k ov es) = take cache_size (k # removeAll k (map fst es))"
proof -
  have "removeAll k (map fst es) = map fst es"
    using assms(1) by (simp add: removeAll_id)
  moreover have "map fst (if length es \<ge> cache_size then butlast es else es) =
      take (cache_size - 1) (map fst es)"
    using assms(2) by (auto simp: butlast_conv_take take_map)
  ultimately show ?thesis
    using assms(1) by (simp add: cache_insert_new cache_size_def)
qed

lemma keys_touch_bounded:
  assumes "k \<in> fst ` set es" "length es \<le> cache_size"
  shows "take cache_size (k # removeAll k (map fst es)) = k # removeAll k (map fst es)"
proof -
  have "k \<in> set (map fst es)"
    using assms(1) by simp
  then have "length (removeAll k (map fst es)) < length (map fst es)"
    by (rule length_removeAll_less)
  with assms(2) show ?thesis
    by simp
qed

lemma lens_caches:
  "lens quad_cache quad_cache_update" "lens asp_cache asp_cache_update"
  "lens poly_cache poly_cache_update" "lens sasp_cache sasp_cache_update"
  "lens spoly_cache spoly_cache_update" "lens twostep_cache twostep_cache_update"
  by (auto simp: lens_def)

lemma lens_get_upd: "lens get upd \<Longrightarrow> get (upd f s) = f (get s)"
  unfolding lens_def by blast

lemma lens_upd_cong: "lens get upd \<Longrightarrow> f (get s) = g (get s) \<Longrightarrow> upd f s = upd g s"
  unfolding lens_def by blast

lemma lens_next_oid: "lens get upd \<Longrightarrow> get (s\<lparr>next_oid := n\<rparr>) = get s"
  unfolding lens_def by blast

lemma lru_call_result:
  assumes run: "lru_call get upd k compute s = (Inr ov, s')"
    and lens: "lens get upd"
    and frame: "\<And>c. preserves (\<lambda>s. get s = c) compute"
  shows "cache_find k (entries (get s')) = Some ov \<and>
         cache_touch k ov (entries (get s')) = entries (get s') \<and>
         entries (get s') =
           (if k \<in> fst ` set (entries (get s)) then cache_touch k ov (entries (get s))
            else cache_insert k ov (entries (get s)))"
proof (cases "cache_find k (entries (get s))")
  case (Some ov')
  with run have "ov' = ov"
    and "s' = upd (\<lambda>c. c\<lparr>entries := cache_touch k ov (entries c), hits := hits c + 1\<rparr>) s"
    by (auto simp: lru_call_def)
  moreover have "k \<in> fst ` set (entries (get s))"
    using Some by (metis cache_find_None_iff option.distinct(1))
  ultimately show ?thesis
    by (simp add: lens_get_upd [OF lens] cache_find_touch touch_touch)
next
  case None
  let ?s1 = "upd (\<lambda>c. c\<lparr>misses := misses c + 1\<rparr>) s"
  obtain r1 s2 where c: "compute ?s1 = (r1, s2)"
    by (cases "compute ?s1")
  from run None c obtain v where r1: "r1 = Inr v" and ov: "ov = (next_oid s2, v)"
    and s': "s' = upd (\<lambda>c. c\<lparr>entries := cache_insert k ov (entries c)\<rparr>)
        (s2\<lparr>next_oid := next_oid s2 + 1\<rparr>)"
    by (cases r1) (auto simp: lru_call_def)
  have "get s2 = get ?s1"
    using frame [of "get ?s1"] c unfolding preserves_def by blast
  then have e2: "entries (get s2) = entries (get s)"
    by (simp add: lens_get_upd [OF lens])
  have notin: "k \<notin> fst ` set (entries (get s))"
    using None by (simp add: cache_find_None_iff)
  have "entries (get s') = cache_insert k ov (entries (get s))"
    using s' e2 by (simp add: lens_get_upd [OF lens] lens_next_oid [OF lens])
  with notin show ?thesis
    by (simp add: cache_find_insert touch_insert)
qed

lemma lru_call_keys:
  assumes run: "lru_call get upd k compute s = (Inr ov, s')"
    and lens: "lens get upd"
    and frame: "\<And>c. preserves (\<lambda>s. get s = c) compute"
    and bounded: "length (entries (get s)) \<le> cache_size"
  shows "map fst (entries (get s')) =
           take cache_size (k # removeAll k (map fst (entries (get s))))"
  using lru_call_result [OF run lens frame] bounded
  by (auto simp: keys_cache_touch keys_cache_insert keys_touch_bounded)

lemma lru_call_again:
  assumes run: "lru_call get upd k compute s = (Inr ov, s')"
    and lens: "lens get upd"
    and frame: "\<And>c. preserves (\<lambda>s. get s = c) compute"
  shows "lru_call get upd k compute s' = (Inr ov, upd (\<lambda>c. c\<lparr>hits := hits c + 1\<rparr>) s')"
proof -
  from lru_call_result [OF run lens frame]
  have f: "cache_find k (entries (get s')) = Some ov"
    and t: "cache_touch k ov (entries (get s')) = entries (get s')"
    by blast+
  have "upd (\<lambda>c. c\<lparr>entries := cache_touch k ov (entries c), hits := hits c + 1\<rparr>) s' =
      upd (\<lambda>c. c\<lparr>hits := hits c + 1\<rparr>) s'"
    by (rule lens_upd_cong [OF lens]) (simp add: t)
  with f show ?thesis
    by (simp add: lru_call_def)
qed

subsection \<open>No kernel function touches its own cache while it computes\<close>

lemma tick_stable_caches:
  "tick_stable (\<lambda>s. quad_cache s = cq)" "tick_stable (\<lambda>s. asp_cache s = ca)"
  "tick_stable (\<lambda>s. poly_cache s = cp)" "tick_stable (\<lambda>s. sasp_cache s = cs)"
  "tick_stable (\<lambda>s. spoly_cache s = cr)" "tick_stable (\<lambda>s. twostep_cache s = ct)"
  by (simp_all add: tick_stable_def)

lemma frame_quad_body:
  "preserves (\<lambda>s. quad_cache s = c)
     (case key of (z, wl, N, dx, on_gpu) \<Rightarrow> returnM (quad_phase_array z wl N dx))"
  by (auto intro!: pres split: prod.splits)

lemma frame_spoly_sasp:
  "preserves (\<lambda>s. spoly_cache s = c) (make_transferfunction_scaledASP B k)"
  unfolding make_transferfunction_scaledASP_def
  by (rule preserves_lru_call) (simp_all add: preserves_sasp_body tick_stable_def)

lemma frame_twostep_quad: "preserves (\<lambda>s. twostep_cache s = c) (make_quad_phase k)"
  unfolding make_quad_phase_def
  by (rule preserves_lru_call) (auto intro!: pres split: prod.splits)

lemma frame_spoly_body:
  "preserves (\<lambda>s. spoly_cache s = c) (make_transferfunction_scaledPolychromeASP_body B k)"
  by (rule preserves_spoly_body) (rule frame_spoly_sasp)

lemma frame_twostep_body:
  "preserves (\<lambda>s. twostep_cache s = c) (make_cache_twoStepPolychrome_body B k)"
  by (rule preserves_twostep_body) (simp_all add: tick_stable_def frame_twostep_quad)

subsection \<open>A second call with the same key\<close>

lemma quad_again:
  "make_quad_phase k s = (Inr ov, s1) \<Longrightarrow>
   make_quad_phase k s1 = (Inr ov, quad_cache_update (\<lambda>c. c\<lparr>hits := hits c + 1\<rparr>) s1)"
  unfolding make_quad_phase_def
  by (rule lru_call_again [OF _ lens_caches(1) frame_quad_body])

lemma asp_again:
  "make_transferfunction_ASP B k s = (Inr ov, s1) \<Longrightarrow>
   make_transferfunction_ASP B k s1 =
     (Inr ov, asp_cache_update (\<lambda>c. c\<lparr>hits := hits c + 1\<rparr>) s1)"
  unfolding make_transferfunction_ASP_def
  by (rule lru_call_again [OF _ lens_caches(2) preserves_ASP_body [OF tick_stable_caches(2)]])

lemma poly_again:
  "make_transferfunction_polychrome_ASP B k s = (Inr ov, s1) \<Longrightarrow>
   make_transferfunction_polychrome_ASP B k s1 =
     (Inr ov, poly_cache_update (\<lambda>c. c\<lparr>hits := hits c + 1\<rparr>) s1)"
  unfolding make_transferfunction_polychrome_ASP_def
  by (rule lru_call_again [OF _ lens_caches(3) preserves_poly_body [OF tick_stable_caches(3)]])

lemma sasp_again:
  "make_transferfunction_scaledASP B k s = (Inr ov, s1) \<Longrightarrow>
   make_transferfunction_scaledASP B k s1 =
     (Inr ov, sasp_cache_update (\<lambda>c. c\<lparr>hits := hits c + 1\<rparr>) s1)"
  unfolding make_transferfunction_scaledASP_def
  by (rule lru_call_again [OF _ lens_caches(4) preserves_sasp_body [OF tick_stable_caches(4)]])

lemma spoly_again:
  "make_transferfunction_scaledPolychromeASP B k s = (Inr ov, s1) \<Longrightarrow>
   make_transferfunction_scaledPolychromeASP B k s1 =
     (Inr ov, spoly_cache_update (\<lambda>c. c\<lparr>hits := hits c + 1\<rparr>) s1)"
  unfolding make_transferfunction_scaledPolychromeASP_def
  by (rule lru_call_again [OF _ lens_caches(5) frame_spoly_body])

lemma twostep_again:
  "make_cache_twoStepPolychrome B k s = (Inr ov, s1) \<Longrightarrow>
   make_cache_twoStepPolychrome B k s1 =
     (Inr ov, twostep_cache_update (\<lambda>c. c\<lparr>hits := hits c + 1\<rparr>) s1)"
  unfolding make_cache_twoStepPolychrome_def
  by (rule lru_call_again [OF _ lens_caches(6) frame_twostep_body])

subsection \<open>The caches stay within capacity and hold valid keys only\<close>

lemma bounded_touch:
  assumes "cache_find k es = Some ov" "length es \<le> cache_size" "distinct (map fst es)"
  shows "length (cache_touch k ov es) \<le> cache_size \<and> distinct (map fst (cache_touch k ov es))"
proof -
  have "(k, ov) \<in> set es"
    using assms(1) by (rule cache_find_Some_mem)
  then have "length (filter (\<lambda>e. fst e \<noteq> k) es) < length es"
    by (intro length_filter_less [of "(k, ov)"]) auto
  then have "length (cache_touch k ov es) \<le> cache_size"
    using assms(2) by (simp add: cache_touch_def)
  moreover have "distinct (map fst (cache_touch k ov es))"
    using assms(3) by (simp add: keys_cache_touch distinct_removeAll)
  ultimately show ?thesis ..
qed

lemma bounded_insert:
  assumes "length es \<le> cache_size" "distinct (map fst es)"
  shows "length (cache_insert k ov es) \<le> cache_size \<and> distinct (map fst (cache_insert k ov es))"
proof (cases "k \<in> fst ` set es")
  case True
  with assms show ?thesis
    by (simp add: cache_insert_def)
next
  case False
  have "distinct (map fst (butlast es))"
    using assms(2) by (simp add: map_butlast distinct_butlast)
  moreover have "k \<notin> fst ` set (butlast es)"
    using False by (auto dest: in_set_butlastD)
  moreover have "length es \<ge> cache_size \<Longrightarrow> Suc (length es - 1) \<le> cache_size"
    using assms(1) by (simp add: cache_size_def)
  ultimately show ?thesis
    using False assms by (auto simp: cache_insert_new)
qed

lemma valid_touch:
  "list_all P es \<Longrightarrow> cache_find k es = Some ov \<Longrightarrow> list_all P (cache_touch k ov es)"
  by (auto simp: cache_touch_def list_all_iff dest: cache_find_Some_mem)

lemma valid_insert: "list_all P es \<Longrightarrow> P (k, ov) \<Longrightarrow> list_all P (cache_insert k ov es)"
  by (auto simp: cache_insert_def list_all_iff dest: in_set_butlastD)

lemma cache_bounded_touch:
  "cache_bounded c \<Longrightarrow> cache_find k (entries c) = Some ov \<Longrightarrow>
   cache_bounded (c\<lparr>entries := cache_touch k ov (entries c), hits := h\<rparr>)"
  using bounded_touch [of k "entries c" ov] by (simp add: cache_bounded_def)

lemma cache_bounded_insert:
  "cache_bounded c \<Longrightarrow> cache_bounded (c\<lparr>entries := cache_insert k ov (entries c)\<rparr>)"
  using bounded_insert [of "entries c" k ov] by (simp add: cache_bounded_def)

lemma cache_bounded_misses: "cache_bounded (c\<lparr>misses := m\<rparr>) = cache_bounded c"
  by (simp add: cache_bounded_def)

lemma tick_stable_state_ok: "tick_stable state_ok"
  by (simp add: tick_stable_def state_ok_def caches_bounded_def keys_valid_def)

lemma asp_body_valid:
  "make_transferfunction_ASP_body B k s0 = (Inr v, s) \<Longrightarrow> asp_key_valid k"
  by (auto simp: make_transferfunction_ASP_body_def asp_key_valid_def raiseM_def
      split: prod.splits if_splits)

lemma poly_body_valid:
  "make_transferfunction_polychrome_ASP_body B k s0 = (Inr v, s) \<Longrightarrow> poly_key_valid k"
  by (auto simp: make_transferfunction_polychrome_ASP_body_def poly_key_valid_def raiseM_def
      split: prod.splits if_splits)

lemma sasp_body_valid:
  "make_transferfunction_scaledASP_body B k s0 = (Inr v, s) \<Longrightarrow> sasp_key_valid k"
  by (auto simp: make_transferfunction_scaledASP_body_def sasp_key_valid_def raiseM_def
      split: prod.splits if_splits)

lemma spoly_body_valid:
  "make_transferfunction_scaledPolychromeASP_body B k s0 = (Inr v, s) \<Longrightarrow> spoly_key_valid k"
  by (auto simp: make_transferfunction_scaledPolychromeASP_body_def spoly_key_valid_def raiseM_def
      split: prod.splits if_splits)

lemma twostep_body_valid:
  "make_cache_twoStepPolychrome_body B k s0 = (Inr v, s) \<Longrightarrow> twostep_key_valid k"
  by (auto simp: make_cache_twoStepPolychrome_body_def twostep_key_valid_def raiseM_def
      split: prod.splits if_splits)

lemmas state_ok_defs = state_ok_def caches_bounded_def keys_valid_def

lemma state_ok_quad: "preserves state_ok (make_quad_phase k)"
  unfolding make_quad_phase_def
proof (rule preserves_lru_call)
  show "preserves state_ok (case k of (z, wl, N, dx, on_gpu) \<Rightarrow> returnM (quad_phase_array z wl N dx))"
    by (auto intro!: pres split: prod.splits)
qed (auto simp: state_ok_defs cache_bounded_misses cache_bounded_touch cache_bounded_insert)

lemma state_ok_asp: "preserves state_ok (make_transferfunction_ASP B k)"
  unfolding make_transferfunction_ASP_def
proof (rule preserves_lru_call)
  show "preserves state_ok (make_transferfunction_ASP_body B k)"
    by (rule preserves_ASP_body [OF tick_stable_state_ok])
qed (auto simp: state_ok_defs cache_bounded_misses cache_bounded_touch cache_bounded_insert
    valid_touch intro!: valid_insert dest: asp_body_valid)

lemma state_ok_poly: "preserves state_ok (make_transferfunction_polychrome_ASP B k)"
  unfolding make_transferfunction_polychrome_ASP_def
proof (rule preserves_lru_call)
  show "preserves state_ok (make_transferfunction_polychrome_ASP_body B k)"
    by (rule preserves_poly_body [OF tick_stable_state_ok])
qed (auto simp: state_ok_defs cache_bounded_misses cache_bounded_touch cache_bounded_insert
    valid_touch intro!: valid_insert dest: poly_body_valid)

lemma state_ok_sasp: "preserves state_ok (make_transferfunction_scaledASP B k)"
  unfolding make_transferfunction_scaledASP_def
proof (rule preserves_lru_call)
  show "preserves state_ok (make_transferfunction_scaledASP_body B k)"
    by (rule preserves_sasp_body [OF tick_stable_state_ok])
qed (auto simp: state_ok_defs cache_bounded_misses cache_bounded_touch cache_bounded_insert
    valid_touch intro!: valid_insert dest: sasp_body_valid)

lemma state_ok_spoly: "preserves state_ok (make_transferfunction_scaledPolychromeASP B k)"
  unfolding make_transferfunction_scaledPolychromeASP_def
proof (rule preserves_lru_call)
  show "preserves state_ok (make_transferfunction_scaledPolychromeASP_body B k)"
    by (rule preserves_spoly_body) (rule state_ok_sasp)
qed (auto simp: state_ok_defs cache_bounded_misses cache_bounded_touch cache_bounded_insert
    valid_touch intro!: valid_insert dest: spoly_body_valid)

lemma state_ok_twostep: "preserves state_ok (make_cache_twoStepPolychrome B k)"
  unfolding make_cache_twoStepPolychrome_def
proof (rule preserves_lru_call)
  show "preserves state_ok (make_cache_twoStepPolychrome_body B k)"
    by (rule preserves_twostep_body [OF tick_stable_state_ok]) (rule state_ok_quad)
qed (auto simp: state_ok_defs cache_bounded_misses cache_bounded_touch cache_bounded_insert
    valid_touch intro!: valid_insert dest: twostep_body_valid)

lemma state_ok_init: "state_ok init_state"
  by (simp add: state_ok_defs init_state_def empty_cache_def cache_bounded_def)

lemma state_ok_clear: "state_ok (clear_cache s)"
  by (simp add: state_ok_defs clear_cache_def cache_clear_def empty_cache_def cache_bounded_def)

lemma reachable_state_ok: "reachable B s \<Longrightarrow> state_ok s"
proof (induction rule: reachable.induct)
  case start
  show ?case by (rule state_ok_init)
next
  case (quad_phase s k res s')
  then show ?case using state_ok_quad unfolding preserves_def by blast
next
  case (transferfunction_ASP s ka resa s')
  then show ?case using state_ok_asp unfolding preserves_def by blast
next
  case (transferfunction_polychrome_ASP s kp resp s')
  then show ?case using state_ok_poly unfolding preserves_def by blast
next
  case (transferfunction_scaledASP s ks ress s')
  then show ?case using state_ok_sasp unfolding preserves_def by blast
next
  case (transferfunction_scaledPolychromeASP s kq resq s')
  then show ?case using state_ok_spoly unfolding preserves_def by blast
next
  case (cache_twoStepPolychrome s kt rest s')
  then show ?case using state_ok_twostep unfolding preserves_def by blast
next
  case (transform s)
  then show ?case using tick_stable_state_ok by (simp add: tick_stable_def)
next
  case (cleared s)
  show ?case by (rule state_ok_clear)
qed

subsection \<open>Reachable states are closed under the propagators\<close>

lemma tick_stable_reachable: "tick_stable (reachable B)"
  unfolding tick_stable_def by (blast intro: reachable.transform)

lemma reachable_kernels:
  "preserves (reachable B) (make_quad_phase kq)"
  "preserves (reachable B) (make_transferfunction_ASP B ka)"
  "preserves (reachable B) (make_transferfunction_polychrome_ASP B kp)"
  "preserves (reachable B) (make_transferfunction_scaledASP B ks)"
  "preserves (reachable B) (make_transferfunction_scaledPolychromeASP B kr)"
  "preserves (reachable B) (make_cache_twoStepPolychrome B kt)"
  unfolding preserves_def by (blast intro: reachable.intros)+

lemmas reachable_transforms = preserves_transforms [OF tick_stable_reachable]

lemma reachable_propagators:
  "preserves (reachable B) (propagate_fraunhofer B flds p r z)"
  "preserves (reachable B) (propagate_fraunhofer_inv B flds p r z)"
  "preserves (reachable B) (propagate_fresnel B flds p r z)"
  "preserves (reachable B) (propagate_fresnel_inv B flds p r z)"
  "preserves (reachable B) (propagate_ASP B flds p r i z)"
  "preserves (reachable B) (propagate_polychromeASP B flds p r i z)"
  "preserves (reachable B) (propagate_scaledASP B flds p r i z)"
  "preserves (reachable B) (propagate_scaledPolychromeASP B flds p r i z)"
  "preserves (reachable B) (propagate_twoStepPolychrome B flds p r i z)"
  by (auto simp: propagate_fraunhofer_def propagate_fraunhofer_inv_def propagate_fresnel_def
      propagate_fresnel_inv_def propagate_ASP_def propagate_polychromeASP_def
      propagate_scaledASP_def propagate_scaledPolychromeASP_def propagate_twoStepPolychrome_def
      Let_def intro!: pres reachable_kernels reachable_transforms)

lemma reachable_object2detector: "preserves (reachable B) (object2detector B flds p r)"
  by (auto simp: object2detector_def lookup_def forward_lookup_dictionary_def
      intro!: pres reachable_propagators)

lemma reachable_detector2object: "preserves (reachable B) (detector2object B flds p r)"
  by (auto simp: detector2object_def lookup_def reverse_lookup_dictionary_def Let_def
      propagate_ASP_inv_def propagate_polychromeASP_inv_def propagate_scaledASP_inv_def
      propagate_scaledPolychromeASP_inv_def propagate_twoStepPolychrome_inv_def
      intro!: pres reachable_propagators)

subsection \<open>Cache hits\<close>


lemma quad_spec_first:
  "make_quad_phase k_spec init_state =
     (Inr (0, quad_phase_array (1 / 100) (5 / 10 ^ 7) 64 (1 / 10 ^ 5)), s_spec)"
  by (simp add: make_quad_phase_def lru_call_def cache_find_def cache_insert_def cache_size_def
      init_state_def empty_cache_def k_spec_def s_spec_def returnM_def)


subsection \<open>Least recently used\<close>

lemma lru_call_failed:
  assumes run: "lru_call get upd k compute s = (Inl e, s')"
    and lens: "lens get upd"
    and frame: "\<And>c. preserves (\<lambda>s. get s = c) compute"
  shows "entries (get s') = entries (get s)"
proof (cases "cache_find k (entries (get s))")
  case (Some ov)
  with run show ?thesis
    by (simp add: lru_call_def)
next
  case None
  let ?s1 = "upd (\<lambda>c. c\<lparr>misses := misses c + 1\<rparr>) s"
  obtain r1 s2 where c: "compute ?s1 = (r1, s2)"
    by (cases "compute ?s1")
  from run None c have "s' = s2"
    by (cases r1) (auto simp: lru_call_def)
  moreover have "get s2 = get ?s1"
    using frame [of "get ?s1"] c unfolding preserves_def by blast
  ultimately show ?thesis
    by (simp add: lens_get_upd [OF lens])
qed

lemma kernel_keys:
  "make_quad_phase kq s = (Inr res_q, s') \<Longrightarrow> length (entries (quad_cache s)) \<le> cache_size \<Longrightarrow>
   map fst (entries (quad_cache s')) = lru_step kq (map fst (entries (quad_cache s)))"
  "make_transferfunction_ASP B ka s = (Inr res_a, s') \<Longrightarrow>
   length (entries (asp_cache s)) \<le> cache_size \<Longrightarrow>
   map fst (entries (asp_cache s')) = lru_step ka (map fst (entries (asp_cache s)))"
  "make_transferfunction_polychrome_ASP B kp s = (Inr res_p, s') \<Longrightarrow>
   length (entries (poly_cache s)) \<le> cache_size \<Longrightarrow>
   map fst (entries (poly_cache s')) = lru_step kp (map fst (entries (poly_cache s)))"
  "make_transferfunction_scaledASP B ks s = (Inr res_s, s') \<Longrightarrow>
   length (entries (sasp_cache s)) \<le> cache_size \<Longrightarrow>
   map fst (entries (sasp_cache s')) = lru_step ks (map fst (entries (sasp_cache s)))"
  "make_transferfunction_scaledPolychromeASP B kr s = (Inr res_r, s') \<Longrightarrow>
   length (entries (spoly_cache s)) \<le> cache_size \<Longrightarrow>
   map fst (entries (spoly_cache s')) = lru_step kr (map fst (entries (spoly_cache s)))"
  "make_cache_twoStepPolychrome B kt s = (Inr res_t, s') \<Longrightarrow>
   length (entries (twostep_cache s)) \<le> cache_size \<Longrightarrow>
   map fst (entries (twostep_cache s')) = lru_step kt (map fst (entries (twostep_cache s)))"
  unfolding lru_step_def make_quad_phase_def make_transferfunction_ASP_def
    make_transferfunction_polychrome_ASP_def make_transferfunction_scaledASP_def
    make_transferfunction_scaledPolychromeASP_def make_cache_twoStepPolychrome_def
  by (erule lru_call_keys [OF _ lens_caches(1) frame_quad_body],
      assumption,
      erule lru_call_keys [OF _ lens_caches(2) preserves_ASP_body [OF tick_stable_caches(2)]],
      assumption,
      erule lru_call_keys [OF _ lens_caches(3) preserves_poly_body [OF tick_stable_caches(3)]],
      assumption,
      erule lru_call_keys [OF _ lens_caches(4) preserves_sasp_body [OF tick_stable_caches(4)]],
      assumption,
      erule lru_call_keys [OF _ lens_caches(5) frame_spoly_body],
      assumption,
      erule lru_call_keys [OF _ lens_caches(6) frame_twostep_body],
      assumption)

lemma kernel_failed:
  "make_quad_phase kq s = (Inl e, s') \<Longrightarrow> entries (quad_cache s') = entries (quad_cache s)"
  "make_transferfunction_ASP B ka s = (Inl e, s') \<Longrightarrow>
   entries (asp_cache s') = entries (asp_cache s)"
  "make_transferfunction_polychrome_ASP B kp s = (Inl e, s') \<Longrightarrow>
   entries (poly_cache s') = entries (poly_cache s)"
  "make_transferfunction_scaledASP B ks s = (Inl e, s') \<Longrightarrow>
   entries (sasp_cache s') = entries (sasp_cache s)"
  "make_transferfunction_scaledPolychromeASP B kr s = (Inl e, s') \<Longrightarrow>
   entries (spoly_cache s') = entries (spoly_cache s)"
  "make_cache_twoStepPolychrome B kt s = (Inl e, s') \<Longrightarrow>
   entries (twostep_cache s') = entries (twostep_cache s)"
  unfolding make_quad_phase_def make_transferfunction_ASP_def
    make_transferfunction_polychrome_ASP_def make_transferfunction_scaledASP_def
    make_transferfunction_scaledPolychromeASP_def make_cache_twoStepPolychrome_def
  by (erule lru_call_failed [OF _ lens_caches(1) frame_quad_body],
      erule lru_call_failed [OF _ lens_caches(2) preserves_ASP_body [OF tick_stable_caches(2)]],
      erule lru_call_failed [OF _ lens_caches(3) preserves_poly_body [OF tick_stable_caches(3)]],
      erule lru_call_failed [OF _ lens_caches(4) preserves_sasp_body [OF tick_stable_caches(4)]],
      erule lru_call_failed [OF _ lens_caches(5) frame_spoly_body],
      erule lru_call_failed [OF _ lens_caches(6) frame_twostep_body])

text \<open>
  Replaying a history of uses with \<open>lru_step\<close> leaves the keys used most recently, the
  latest first: the key dropped is always the one whose last use lies furthest back.
\<close>

lemma take_removeAll_take:
  "distinct ys \<Longrightarrow> take (n - 1) (removeAll k (take n ys)) = take (n - 1) (removeAll k ys)"
proof (induction ys arbitrary: n)
  case Nil
  show ?case by simp
next
  case (Cons y ys)
  show ?case
  proof (cases n)
    case 0
    then show ?thesis by simp
  next
    case (Suc m)
    show ?thesis
    proof (cases "y = k")
      case True
      with Cons.prems have "k \<notin> set ys" by simp
      then have "removeAll k ys = ys"
        by (simp add: removeAll_id)
      moreover have "k \<notin> set (take m ys)"
        using \<open>k \<notin> set ys\<close> by (auto dest: in_set_takeD)
      then have "removeAll k (take m ys) = take m ys"
        by (simp add: removeAll_id)
      ultimately have "removeAll k ys = ys" "removeAll k (take m ys) = take m ys"
        by simp_all
      with True Suc show ?thesis by simp
    next
      case False
      from Cons.prems have d: "distinct ys" by simp
      show ?thesis
      proof (cases m)
        case 0
        with Suc False show ?thesis by simp
      next
        case (Suc j)
        from Cons.IH [OF d, of "Suc j"]
        have "take j (removeAll k (take (Suc j) ys)) = take j (removeAll k ys)"
          by simp
        with False \<open>n = Suc m\<close> Suc show ?thesis by simp
      qed
    qed
  qed
qed

lemma remdups_snoc: "remdups (xs @ [k]) = removeAll k (remdups xs) @ [k]"
  by (induction xs) auto

lemma rev_removeAll: "rev (removeAll k xs) = removeAll k (rev xs)"
  by (induction xs) (auto simp: removeAll_append)

lemma lru_step_take:
  assumes "distinct ys"
  shows "lru_step k (take cache_size ys) = lru_step k ys"
proof -
  have "cache_size = Suc (cache_size - 1)"
    by (simp add: cache_size_def)
  then have "\<And>zs. take cache_size (k # zs) = k # take (cache_size - 1) zs"
    by (metis take_Suc_Cons)
  then show ?thesis
    using take_removeAll_take [OF assms, of cache_size k] by (simp add: lru_step_def)
qed

lemma fold_lru_step:
  "fold lru_step hist [] = take cache_size (rev (remdups hist))"
proof (induction hist rule: rev_induct)
  case Nil
  show ?case by simp
next
  case (snoc k hist)
  have "fold lru_step (hist @ [k]) [] = lru_step k (take cache_size (rev (remdups hist)))"
    using snoc.IH by simp
  also have "\<dots> = lru_step k (rev (remdups hist))"
    by (rule lru_step_take) simp
  also have "\<dots> = take cache_size (rev (remdups (hist @ [k])))"
    by (simp add: lru_step_def remdups_snoc rev_removeAll)
  finally show ?case .
qed

lemma quad_succeeds: "\<exists>ov. make_quad_phase k s = (Inr ov, snd (make_quad_phase k s))"
  by (cases k)
    (auto simp: make_quad_phase_def lru_call_def returnM_def split: option.splits)

lemma quad_requests_snoc:
  "quad_requests (ks @ [k]) s = snd (make_quad_phase k (quad_requests ks s))"
  by (simp add: quad_requests_def)

lemma reachable_quad_requests: "reachable B s \<Longrightarrow> reachable B (quad_requests ks s)"
proof (induction ks rule: rev_induct)
  case Nil
  then show ?case by (simp add: quad_requests_def)
next
  case (snoc k ks)
  then have "reachable B (quad_requests ks s)" by simp
  then show ?case
    unfolding quad_requests_snoc
    using reachable.quad_phase [of B "quad_requests ks s" k] by (metis prod.collapse)
qed

lemma quad_requests_keys:
  "map fst (entries (quad_cache (quad_requests ks init_state))) = fold lru_step ks []"
proof (induction ks rule: rev_induct)
  case Nil
  show ?case by (simp add: quad_requests_def init_state_def empty_cache_def)
next
  case (snoc k ks)
  let ?s = "quad_requests ks init_state"
  have "reachable ref_backend ?s"
    by (rule reachable_quad_requests) (rule reachable.start)
  then have "length (entries (quad_cache ?s)) \<le> cache_size"
    using reachable_state_ok by (auto simp: state_ok_defs cache_bounded_def)
  moreover obtain ov where "make_quad_phase k ?s = (Inr ov, snd (make_quad_phase k ?s))"
    using quad_succeeds by blast
  ultimately have "map fst (entries (quad_cache (snd (make_quad_phase k ?s)))) =
      lru_step k (map fst (entries (quad_cache ?s)))"
    by (rule kernel_keys(1) [rotated])
  with snoc.IH show ?case
    by (simp add: quad_requests_snoc)
qed



subsection \<open>Rejected configurations\<close>

lemma invalid_key_not_cached:
  "list_all (\<lambda>e. P (fst e)) es \<Longrightarrow> \<not> P k \<Longrightarrow> cache_find k es = None"
  by (auto simp: cache_find_None_iff list_all_iff)

lemma poly_rejects_shift:
  assumes "keys_valid s"
  shows "make_transferfunction_polychrome_ASP B (pt, True, rest) s =
     (Inl (ValueError ''ASP propagatorType works only with fftshiftSwitch = False!''),
      poly_cache_update (\<lambda>c. c\<lparr>misses := misses c + 1\<rparr>) s)"
proof -
  have "cache_find (pt, True, rest) (entries (poly_cache s)) = None"
    using assms
    by (intro invalid_key_not_cached [where P = poly_key_valid])
      (simp_all add: keys_valid_def poly_key_valid_def)
  then show ?thesis
    by (simp add: make_transferfunction_polychrome_ASP_def lru_call_def
        make_transferfunction_polychrome_ASP_body_def raiseM_def split: prod.splits)
qed

lemma sasp_rejects_shift:
  assumes "keys_valid s"
  shows "make_transferfunction_scaledASP B (pt, True, rest) s =
     (Inl (ValueError ''scaledASP propagatorType works only with fftshiftSwitch = False!''),
      sasp_cache_update (\<lambda>c. c\<lparr>misses := misses c + 1\<rparr>) s)"
proof -
  have "cache_find (pt, True, rest) (entries (sasp_cache s)) = None"
    using assms
    by (intro invalid_key_not_cached [where P = sasp_key_valid])
      (simp_all add: keys_valid_def sasp_key_valid_def split: prod.splits)
  then show ?thesis
    by (simp add: make_transferfunction_scaledASP_def lru_call_def
        make_transferfunction_scaledASP_body_def raiseM_def split: prod.splits)
qed

lemma sasp_rejects_wavelengths:
  assumes "keys_valid s" "n > 1"
  shows "make_transferfunction_scaledASP B (pt, False, n, rest) s =
     (Inl (ValueError
        ''For multi-wavelength, scaledPolychromeASP needs to be used instead of scaledASP''),
      sasp_cache_update (\<lambda>c. c\<lparr>misses := misses c + 1\<rparr>) s)"
proof -
  have "cache_find (pt, False, n, rest) (entries (sasp_cache s)) = None"
    using assms
    by (intro invalid_key_not_cached [where P = sasp_key_valid])
      (simp_all add: keys_valid_def sasp_key_valid_def split: prod.splits)
  then show ?thesis
    using assms(2)
    by (simp add: make_transferfunction_scaledASP_def lru_call_def
        make_transferfunction_scaledASP_body_def raiseM_def split: prod.splits)
qed

lemma spoly_rejects_shift:
  assumes "keys_valid s"
  shows "make_transferfunction_scaledPolychromeASP B (True, rest) s =
     (Inl (ValueError
        ''scaledPolychromeASP propagatorType works only with fftshiftSwitch = False!''),
      spoly_cache_update (\<lambda>c. c\<lparr>misses := misses c + 1\<rparr>) s)"
proof -
  have "cache_find (True, rest) (entries (spoly_cache s)) = None"
    using assms
    by (intro invalid_key_not_cached [where P = spoly_key_valid])
      (simp_all add: keys_valid_def spoly_key_valid_def)
  then show ?thesis
    by (simp add: make_transferfunction_scaledPolychromeASP_def lru_call_def
        make_transferfunction_scaledPolychromeASP_body_def raiseM_def split: prod.splits)
qed

lemma twostep_rejects_shift:
  assumes "keys_valid s"
  shows "make_cache_twoStepPolychrome B (True, rest) s =
     (Inl (ValueError
        ''twoStepPolychrome propagatorType works only with fftshiftSwitch = False!''),
      twostep_cache_update (\<lambda>c. c\<lparr>misses := misses c + 1\<rparr>) s)"
proof -
  have "cache_find (True, rest) (entries (twostep_cache s)) = None"
    using assms
    by (intro invalid_key_not_cached [where P = twostep_key_valid])
      (simp_all add: keys_valid_def twostep_key_valid_def)
  then show ?thesis
    by (simp add: make_cache_twoStepPolychrome_def lru_call_def
        make_cache_twoStepPolychrome_body_def raiseM_def split: prod.splits)
qed



subsection \<open>The angular-spectrum kernel\<close>

lemma map2_same: "map2 f (map g xs) (map h xs) = map (\<lambda>x. f (g x) (h x)) xs"
  by (induction xs) auto

lemma map2_m_same: "map2_m f (map_m g A) (map_m h A) = map_m (\<lambda>a. f (g a) (h a)) A"
proof -
  have "map2 (map2 f) (map (map g) A) (map (map h) A) =
      map (\<lambda>row. map2 f (map g row) (map h row)) A"
    by (rule map2_same)
  then show ?thesis
    by (simp add: map2_m_def map_m_def map2_same)
qed

lemma map_m_map_m: "map_m g (map_m h A) = map_m (\<lambda>a. g (h a)) A"
  by (simp add: map_m_def comp_def)

lemma map_m_map2_m: "map_m g (map2_m h A B) = map2_m (\<lambda>a b. g (h a b)) A B"
  by (simp add: map_m_def map2_m_def comp_def case_prod_unfold)

text \<open>
  What the source computes: since the clip is applied to the mask, the root is taken
  of zero or one, and every frequency the mask keeps gets the same phase \<open>k z\<close>.
\<close>

lemma aspw_H_constant_phase:
  "aspw_H N z wl L =
     (let (Fx, Fy) = aspw_grid N L
      in map2_m (\<lambda>x y. of_bool (1 - (x * wl)\<^sup>2 - (y * wl)\<^sup>2 > 0) * cis (2 * pi / wl * z)) Fx Fy)"
proof -
  have e: "\<And>b c. of_bool b * cis (c * sqrt (of_bool b) / wl) =
      (of_bool b :: complex) * cis (c / wl)"
    by (case_tac b) simp_all
  show ?thesis
    by (simp add: aspw_H_def Let_def case_prod_unfold map_m_map_m map2_m_same map_m_map2_m e)
qed

lemma upt_2 [simp]: "[0..<2] = [0, 1]"
  by (simp add: upt_rec numeral_2_eq_2)

lemma sqrt_16_25: "sqrt (16 / 25) = 4 / 5"
  by (rule real_sqrt_unique) (simp_all add: power2_eq_square)

lemma cis_four_fifths: "cis (4 * pi / 5) \<noteq> - 1"
proof
  assume "cis (4 * pi / 5) = - 1"
  then have "Im (cis (4 * pi / 5)) = Im (- 1)"
    by simp
  then have "sin (4 * pi / 5) = 0"
    by simp
  moreover have "0 < sin (4 * pi / 5)"
    by (rule sin_gt_zero) (simp_all add: pi_gt_zero)
  ultimately show False
    by simp
qed

lemma aspw_H_code_entry: "aspw_H 2 (3 / 10) (3 / 5) 1 ! 1 ! 0 = - 1"
  by (simp add: aspw_H_def aspw_grid_def meshgrid_def map2_m_def map_m_def Let_def
      power2_eq_square)

lemma aspw_H_spec_entry: "aspw_H_spec 2 (3 / 10) (3 / 5) 1 ! 1 ! 0 = cis (4 * pi / 5)"
proof -
  have "(1::real) - 3 * 3 / (5 * 5) = 16 / 25"
    by simp
  then show ?thesis
    by (simp add: aspw_H_spec_def aspw_grid_def meshgrid_def map2_m_def Let_def
        power2_eq_square sqrt_16_25)
qed

lemma aspw_W_entry: "aspw_W ref_backend 2 (3 / 10) (3 / 5) 1 ! 1 ! 0 = 1"
proof -
  have "(1::real) < (1 / (3 / 5 * sqrt (1 + 4 * (3 / 10)\<^sup>2)))\<^sup>2"
    by (simp add: power_divide power_mult_distrib power2_eq_square)
  then show ?thesis
    by (simp add: aspw_W_def aspw_grid_def meshgrid_def map2_m_def Let_def ref_circ_def)
qed

text \<open>
  C2 does not hold of the code. For a field of two by two pixels with \<open>L = 1\<close>,
  \<open>wavelength = 0.6\<close> and \<open>z = 0.3\<close>, at the frequency \<open>(Fx, Fy) = (-1, 0)\<close>, which the
  mask and the band-limit window both keep: the source's \<open>H\<close> is \<open>exp(i k z) = -1\<close>,
  the transfer function of the claim is \<open>exp(0.8 i k z) = cis (4 pi / 5)\<close>. In general the
  source's \<open>H\<close> is \<open>mask \<sqdot> exp(i k z)\<close>, the same phase at every frequency.
\<close>

theorem aspw_kernel_differs:
  "aspw_H 2 (3 / 10) (3 / 5) 1 ! 1 ! 0 = - 1 \<and>
   aspw_H_spec 2 (3 / 10) (3 / 5) 1 ! 1 ! 0 = cis (4 * pi / 5) \<and>
   cis (4 * pi / 5) \<noteq> - 1 \<and>
   aspw_W ref_backend 2 (3 / 10) (3 / 5) 1 ! 1 ! 0 = 1 \<and>
   aspw_H N z wl L =
     (let (Fx, Fy) = aspw_grid N L
      in map2_m (\<lambda>x y. of_bool (1 - (x * wl)\<^sup>2 - (y * wl)\<^sup>2 > 0) * cis (2 * pi / wl * z)) Fx Fy)"
  using aspw_H_code_entry aspw_H_spec_entry cis_four_fifths aspw_W_entry
    aspw_H_constant_phase [of N z wl L]
  by blast

subsection \<open>Elementwise products\<close>

lemma mapE_Inr: "(\<And>x. x \<in> set xs \<Longrightarrow> f x = Inr (g x)) \<Longrightarrow> mapE f xs = Inr (map g xs)"
  by (induction xs) auto

lemma mapE_Inl: "x \<in> set xs \<Longrightarrow> (\<And>y. y \<in> set xs \<Longrightarrow> f y = Inl e) \<Longrightarrow> mapE f xs = Inl e"
  by (cases xs) auto

lemma bc2_same_length: "length a = length b \<Longrightarrow> bc2 f a b = mapE (\<lambda>(x, y). f x y) (zip a b)"
  by (simp add: bc2_def)

lemma bc2_mul_c: "length a = length b \<Longrightarrow> bc2 mul_c a b = Inr (map2 (*) a b)"
  by (simp add: bc2_def mul_c_def mapE_Inr [where g = "\<lambda>(x, y). x * y"] case_prod_unfold)

lemma mul_mm_square:
  assumes "square_m N x" "square_m N q"
  shows "mul_mm x q = Inr (map2_m (*) x q)"
proof -
  have "\<And>ab. ab \<in> set (zip x q) \<Longrightarrow>
      (case ab of (a, b) \<Rightarrow> bc2 mul_c a b) = Inr (case ab of (a, b) \<Rightarrow> map2 (*) a b)"
    using assms
    by (auto simp: square_m_def list_all_iff intro!: bc2_mul_c
        dest: set_zip_leftD set_zip_rightD)
      (metis set_zip_leftD set_zip_rightD)
  then have "mapE (\<lambda>(a, b). bc2 mul_c a b) (zip x q) =
      Inr (map (\<lambda>(a, b). map2 (*) a b) (zip x q))"
    by (rule mapE_Inr)
  moreover have "length x = length q"
    using assms by (simp add: square_m_def)
  ultimately show ?thesis
    by (simp add: mul_mm_def bc2_same_length map2_m_def)
qed

lemma mul_mm_mismatch:
  "length x \<noteq> length q \<Longrightarrow> length x \<noteq> 1 \<Longrightarrow> length q \<noteq> 1 \<Longrightarrow> mul_mm x q = Inl broadcast_error"
  by (simp add: mul_mm_def bc2_def)

lemma mul_fm_square:
  assumes "square_f N f" "square_m N q"
  shows "mul_fm f q = Inr (map_f (\<lambda>x. map2_m (*) x q) f)"
  unfolding mul_fm_def map_f_def
  using assms(1) unfolding square_f_def list_all_iff
  by (intro mapE_Inr mul_mm_square [OF _ assms(2)]) blast

lemma square_m_map2: "square_m N x \<Longrightarrow> square_m N q \<Longrightarrow> square_m N (map2_m f x q)"
  by (auto simp: square_m_def map2_m_def list_all_iff dest: set_zip_leftD set_zip_rightD)
    (metis set_zip_leftD set_zip_rightD min.idem)

lemma square_m_conj: "square_m N q \<Longrightarrow> square_m N (conj_m q)"
  by (auto simp: square_m_def conj_m_def map_m_def list_all_iff)

lemma square_quad_phase: "square_m N (quad_phase_array z wl N dx)"
  by (auto simp: square_m_def quad_phase_array_def linspace_def meshgrid_def map2_m_def
      list_all_iff Let_def elim!: in_set_zipE)

subsection \<open>A request for a grid size that no cached kernel has\<close>

lemma new_grid_new_key: "new_grid grid (grid k) c \<Longrightarrow> k \<notin> fst ` set (entries c)"
  by (auto simp: new_grid_def list_all_iff)

lemma lru_call_rebuilt:
  assumes new: "new_grid grid (grid k) (get s)"
    and lens: "lens get upd"
    and frame: "\<And>c. preserves (\<lambda>s. get s = c) compute"
    and run: "lru_call get upd k compute s = (res, s')"
  shows "rebuilt grid (grid k) (get s) (get s')"
proof -
  let ?s1 = "upd (\<lambda>c. c\<lparr>misses := misses c + 1\<rparr>) s"
  have notin: "k \<notin> fst ` set (entries (get s))"
    using new by (rule new_grid_new_key)
  then have none: "cache_find k (entries (get s)) = None"
    by (simp add: cache_find_None_iff)
  obtain r1 s2 where c: "compute ?s1 = (r1, s2)"
    by (cases "compute ?s1")
  have "get s2 = get ?s1"
    using frame [of "get ?s1"] c unfolding preserves_def by blast
  then have g2: "get s2 = (get s)\<lparr>misses := misses (get s) + 1\<rparr>"
    by (simp add: lens_get_upd [OF lens])
  show ?thesis
  proof (cases r1)
    case (Inl e)
    with run none c have "s' = s2"
      by (simp add: lru_call_def)
    with g2 show ?thesis
      by (simp add: rebuilt_def)
  next
    case (Inr v)
    with run none c
    have "s' = upd (\<lambda>c. c\<lparr>entries := cache_insert k (next_oid s2, v) (entries c)\<rparr>)
        (s2\<lparr>next_oid := next_oid s2 + 1\<rparr>)"
      by (simp add: lru_call_def)
    then have "get s' = (get s2)\<lparr>entries := cache_insert k (next_oid s2, v) (entries (get s2))\<rparr>"
      by (simp add: lens_get_upd [OF lens] lens_next_oid [OF lens])
    with g2 notin show ?thesis
      by (simp add: rebuilt_def cache_insert_def)
  qed
qed

lemma bindM_rebuilt:
  assumes m: "\<And>res s1. m s = (res, s1) \<Longrightarrow> rebuilt grid N (get s) (get s1)"
    and f: "\<And>v c. preserves (\<lambda>s. get s = c) (f v)"
  shows "rebuilt grid N (get s) (get (snd (bindM m f s)))"
proof -
  obtain res s1 where ms: "m s = (res, s1)"
    by (cases "m s")
  show ?thesis
  proof (cases res)
    case (Inl e)
    with ms m show ?thesis
      by (simp add: bindM_def)
  next
    case (Inr v)
    obtain r' s' where fs: "f v s1 = (r', s')"
      by (cases "f v s1")
    then have "get s' = get s1"
      using f [of "get s1" v] unfolding preserves_def by blast
    with ms Inr fs m [OF ms] show ?thesis
      by (simp add: bindM_def)
  qed
qed

lemma kernel_rebuilt:
  "new_grid quad_grid (quad_grid kq) (quad_cache s) \<Longrightarrow> make_quad_phase kq s = (res_q, sq) \<Longrightarrow>
   rebuilt quad_grid (quad_grid kq) (quad_cache s) (quad_cache sq)"
  "new_grid asp_grid (asp_grid ka) (asp_cache s) \<Longrightarrow>
   make_transferfunction_ASP B ka s = (res_a, sa) \<Longrightarrow>
   rebuilt asp_grid (asp_grid ka) (asp_cache s) (asp_cache sa)"
  "new_grid poly_grid (poly_grid kp) (poly_cache s) \<Longrightarrow>
   make_transferfunction_polychrome_ASP B kp s = (res_p, sp) \<Longrightarrow>
   rebuilt poly_grid (poly_grid kp) (poly_cache s) (poly_cache sp)"
  "new_grid sasp_grid (sasp_grid ks) (sasp_cache s) \<Longrightarrow>
   make_transferfunction_scaledASP B ks s = (res_s, ss) \<Longrightarrow>
   rebuilt sasp_grid (sasp_grid ks) (sasp_cache s) (sasp_cache ss)"
  "new_grid spoly_grid (spoly_grid kr) (spoly_cache s) \<Longrightarrow>
   make_transferfunction_scaledPolychromeASP B kr s = (res_r, sr) \<Longrightarrow>
   rebuilt spoly_grid (spoly_grid kr) (spoly_cache s) (spoly_cache sr)"
  "new_grid twostep_grid (twostep_grid kt) (twostep_cache s) \<Longrightarrow>
   make_cache_twoStepPolychrome B kt s = (res_t, st) \<Longrightarrow>
   rebuilt twostep_grid (twostep_grid kt) (twostep_cache s) (twostep_cache st)"
  unfolding make_quad_phase_def make_transferfunction_ASP_def
    make_transferfunction_polychrome_ASP_def make_transferfunction_scaledASP_def
    make_transferfunction_scaledPolychromeASP_def make_cache_twoStepPolychrome_def
  by (erule lru_call_rebuilt [OF _ lens_caches(1) frame_quad_body],
      assumption,
      erule lru_call_rebuilt [OF _ lens_caches(2) preserves_ASP_body [OF tick_stable_caches(2)]],
      assumption,
      erule lru_call_rebuilt [OF _ lens_caches(3) preserves_poly_body [OF tick_stable_caches(3)]],
      assumption,
      erule lru_call_rebuilt [OF _ lens_caches(4) preserves_sasp_body [OF tick_stable_caches(4)]],
      assumption,
      erule lru_call_rebuilt [OF _ lens_caches(5) frame_spoly_body],
      assumption,
      erule lru_call_rebuilt [OF _ lens_caches(6) frame_twostep_body],
      assumption)

lemmas frame_transforms =
  preserves_transforms [OF tick_stable_caches(1)] preserves_transforms [OF tick_stable_caches(2)]
  preserves_transforms [OF tick_stable_caches(3)] preserves_transforms [OF tick_stable_caches(4)]
  preserves_transforms [OF tick_stable_caches(5)] preserves_transforms [OF tick_stable_caches(6)]

lemma ASP_rebuilt:
  assumes "new_grid asp_grid (Np r) (asp_cache s)" "\<not> fftshiftSwitch p" "nlambda r \<le> 1"
  shows "rebuilt asp_grid (Np r) (asp_cache s) (asp_cache (snd (propagate_ASP B flds p r i z s)))"
proof -
  let ?k = "(fftshiftSwitch p, nosm r, npsm r, Np r, distance z r, wavelength r, Lp r, nlambda r,
             gpuSwitch p)"
  have g: "asp_grid ?k = Np r"
    by (simp add: asp_grid_def)
  have "rebuilt asp_grid (Np r) (asp_cache s)
      (asp_cache (snd (bindM (make_transferfunction_ASP B ?k)
        (\<lambda>(oid, tf).
           let transfer_function = (if i then conj_f tf else tf)
           in bindM (fft2c_f B None flds) (\<lambda>F.
              bindM (liftE (mul_ff F transfer_function)) (\<lambda>FT.
              bindM (ifft2c_f B None FT) (\<lambda>result.
              returnM (esw r, result))))) s)))"
    using assms(1) kernel_rebuilt(2) [of ?k s B] unfolding g
    by (intro bindM_rebuilt) (auto simp: Let_def intro!: pres frame_transforms)
  with assms(2,3) show ?thesis
    by (simp add: propagate_ASP_def Let_def)
qed

lemma polychromeASP_rebuilt:
  assumes "new_grid poly_grid (Np r) (poly_cache s)"
  shows "rebuilt poly_grid (Np r) (poly_cache s)
           (poly_cache (snd (propagate_polychromeASP B flds p r i z s)))"
proof -
  let ?k = "(propagatorType p, fftshiftSwitch p, nosm r, npsm r, Np r, distance z r, wavelength r,
             Lp r, nlambda r, spectralDensity r, gpuSwitch p)"
  have g: "poly_grid ?k = Np r"
    by (simp add: poly_grid_def)
  show ?thesis
    unfolding propagate_polychromeASP_def Let_def
    using assms kernel_rebuilt(3) [of ?k s B] unfolding g
    by (intro bindM_rebuilt) (auto simp: Let_def intro!: pres frame_transforms)
qed

lemma scaledASP_rebuilt:
  assumes "new_grid sasp_grid (Np r) (sasp_cache s)"
  shows "rebuilt sasp_grid (Np r) (sasp_cache s)
           (sasp_cache (snd (propagate_scaledASP B flds p r i z s)))"
proof -
  let ?k = "(Some (propagatorType p), fftshiftSwitch p, nlambda r, nosm r, npsm r, Np r,
             distance z r, wavelength r, dxo r, dxd r, Positional (gpuSwitch p))"
  have g: "sasp_grid ?k = Np r"
    by (simp add: sasp_grid_def)
  show ?thesis
    unfolding propagate_scaledASP_def Let_def
    using assms kernel_rebuilt(4) [of ?k s B] unfolding g
    by (intro bindM_rebuilt) (auto simp: Let_def intro!: pres frame_transforms)
qed

lemma scaledPolychromeASP_rebuilt:
  assumes "new_grid spoly_grid (Np r) (spoly_cache s)"
  shows "rebuilt spoly_grid (Np r) (spoly_cache s)
           (spoly_cache (snd (propagate_scaledPolychromeASP B flds p r i z s)))"
proof -
  let ?k = "(fftshiftSwitch p, nlambda r, nosm r, npsm r, distance z r, Np r, spectralDensity r,
             dxo r, dxp r, gpuSwitch p)"
  have g: "spoly_grid ?k = Np r"
    by (simp add: spoly_grid_def)
  show ?thesis
    unfolding propagate_scaledPolychromeASP_def Let_def
    using assms kernel_rebuilt(5) [of ?k s B] unfolding g
    by (intro bindM_rebuilt) (auto simp: Let_def intro!: pres frame_transforms)
qed

lemma twoStepPolychrome_rebuilt:
  assumes "new_grid twostep_grid (Np r) (twostep_cache s)"
  shows "rebuilt twostep_grid (Np r) (twostep_cache s)
           (twostep_cache (snd (propagate_twoStepPolychrome B flds p r i z s)))"
proof -
  let ?k = "(fftshiftSwitch p, nlambda r, nosm r, npsm r, Np r, distance z r, spectralDensity r,
             Lp r, dxp r, gpuSwitch p)"
  have g: "twostep_grid ?k = Np r"
    by (simp add: twostep_grid_def)
  show ?thesis
    unfolding propagate_twoStepPolychrome_def Let_def
    using assms kernel_rebuilt(6) [of ?k s B] unfolding g
    by (intro bindM_rebuilt) (auto simp: Let_def intro!: pres frame_transforms)
qed

subsection \<open>The Fresnel pair\<close>

lemma quad_miss:
  assumes "(z, wl, N, dx, g) \<notin> fst ` set (entries (quad_cache s))"
  shows "\<exists>s1. make_quad_phase (z, wl, N, dx, g) s =
           (Inr (next_oid s, quad_phase_array z wl N dx), s1)"
proof -
  have "cache_find (z, wl, N, dx, g) (entries (quad_cache s)) = None"
    using assms by (simp add: cache_find_None_iff)
  then show ?thesis
    by (simp add: make_quad_phase_def lru_call_def returnM_def)
qed

lemma fresnel_new_grid:
  assumes new: "new_grid quad_grid (last_axis flds) (quad_cache s)"
    and sq: "square_f (last_axis flds) flds"
  shows "\<exists>s'. propagate_fresnel B flds p r z s =
           (Inr (esw r,
              map_f (fft2c B (Some (fftshiftSwitch p)))
                (map_f (\<lambda>x. map2_m (*) x
                   (quad_phase_array (distance z r) (wavelength r) (last_axis flds) (dxp r)))
                 flds)), s') \<and>
         rebuilt quad_grid (last_axis flds) (quad_cache s) (quad_cache s')"
proof -
  let ?k = "(distance z r, wavelength r, last_axis flds, dxp r, Keyword (isGpuArray B flds))"
  let ?Q = "quad_phase_array (distance z r) (wavelength r) (last_axis flds) (dxp r)"
  have g: "quad_grid ?k = last_axis flds"
    by (simp add: quad_grid_def)
  have "?k \<notin> fst ` set (entries (quad_cache s))"
    using new new_grid_new_key [of quad_grid ?k] unfolding g by blast
  then obtain s1 where mk: "make_quad_phase ?k s = (Inr (next_oid s, ?Q), s1)"
    using quad_miss by blast
  have rb: "rebuilt quad_grid (last_axis flds) (quad_cache s) (quad_cache s1)"
    using kernel_rebuilt(1) [of ?k s _ s1] new mk unfolding g by blast
  have "propagate_fresnel B flds p r z s =
      (Inr (esw r, map_f (fft2c B (Some (fftshiftSwitch p))) (map_f (\<lambda>x. map2_m (*) x ?Q) flds)),
       s1\<lparr>transforms := transforms s1 + 1\<rparr>)"
    by (simp add: propagate_fresnel_def Let_def bindM_def mk liftE_def
        mul_fm_square [OF sq square_quad_phase] fft2c_f_def tick_def returnM_def)
  with rb show ?thesis
    by simp
qed

lemma fresnel_inv_new_grid:
  assumes new: "new_grid quad_grid (Np r) (quad_cache s)"
    and sq: "square_f (Np r) (map_f (ifft2c B (Some (fftshiftSwitch p))) flds)"
  shows "\<exists>s'. propagate_fresnel_inv B flds p r z s =
           (Inr (esw r,
              map_f (\<lambda>x. map2_m (*) x
                  (conj_m (quad_phase_array (distance z r) (wavelength r) (Np r) (dxp r))))
                (map_f (ifft2c B (Some (fftshiftSwitch p))) flds)), s') \<and>
         rebuilt quad_grid (Np r) (quad_cache s) (quad_cache s')"
proof -
  let ?k = "(distance z r, wavelength r, Np r, dxp r, Keyword (gpuSwitch p))"
  let ?Q = "quad_phase_array (distance z r) (wavelength r) (Np r) (dxp r)"
  have g: "quad_grid ?k = Np r"
    by (simp add: quad_grid_def)
  have "?k \<notin> fst ` set (entries (quad_cache s))"
    using new new_grid_new_key [of quad_grid ?k] unfolding g by blast
  then obtain s1 where mk: "make_quad_phase ?k s = (Inr (next_oid s, ?Q), s1)"
    using quad_miss by blast
  have rb: "rebuilt quad_grid (Np r) (quad_cache s) (quad_cache s1)"
    using kernel_rebuilt(1) [of ?k s _ s1] new mk unfolding g by blast
  have "propagate_fresnel_inv B flds p r z s =
      (Inr (esw r, map_f (\<lambda>x. map2_m (*) x (conj_m ?Q))
         (map_f (ifft2c B (Some (fftshiftSwitch p))) flds)),
       s1\<lparr>transforms := transforms s1 + 1\<rparr>)"
    by (simp add: propagate_fresnel_inv_def Let_def bindM_def mk liftE_def
        mul_fm_square [OF sq square_m_conj [OF square_quad_phase]] ifft2c_f_def tick_def
        returnM_def)
  with rb show ?thesis
    by simp
qed

subsection \<open>A field whose grid is not the grid of the reconstruction\<close>

lemma length_ref_ifft2c: "length (ref_ifft2c sw x) = length x"
  by (simp add: ref_ifft2c_def fftshift_def ifftshift_def dft2_def Let_def)

lemma length_quad_phase: "length (quad_phase_array z wl N dx) = N"
  using square_quad_phase [of N z wl dx] by (simp add: square_m_def)

lemma s_q3_run:
  "make_quad_phase k_q3 init_state = (Inr (0, quad_phase_array 1 1 3 2), s_q3)"
  by (simp add: make_quad_phase_def lru_call_def cache_find_def k_q3_def s_q3_def init_state_def
      empty_cache_def cache_insert_def cache_size_def returnM_def)

lemma s_q3_reachable: "reachable B s_q3"
  using reachable.quad_phase [OF reachable.start s_q3_run] .

lemma s_q3_hit:
  "make_quad_phase k_q3 s_q3 =
     (Inr (0, quad_phase_array 1 1 3 2), quad_cache_update (\<lambda>c. c\<lparr>hits := hits c + 1\<rparr>) s_q3)"
  using s_q3_run by (rule quad_again)

lemma f_2x2_mismatch:
  "mul_fm (map_f (ref_ifft2c sw) f_2x2) (conj_m (quad_phase_array 1 1 3 2)) = Inl broadcast_error"
proof -
  have "mul_mm (ref_ifft2c sw [[1, 1], [1, 1]]) (conj_m (quad_phase_array 1 1 3 2)) =
      Inl broadcast_error"
    by (rule mul_mm_mismatch)
      (simp_all add: length_ref_ifft2c conj_m_def map_m_def length_quad_phase)
  then show ?thesis
    by (simp add: mul_fm_def map_f_def f_2x2_def)
qed




subsection \<open>The cached quadratic phases\<close>

lemma tick_stable_coherent: "tick_stable quad_coherent"
  by (simp add: tick_stable_def quad_coherent_def)

lemma quad_body_value:
  "(case k of (z, wl, N, dx, on_gpu) \<Rightarrow> returnM (quad_phase_array z wl N dx)) =
     returnM (quad_of_key k)"
  by (simp add: quad_of_key_def split: prod.splits)

lemma coherent_quad: "preserves quad_coherent (make_quad_phase k)"
  unfolding make_quad_phase_def quad_body_value
proof (rule preserves_lru_call)
  show "preserves quad_coherent (returnM (quad_of_key k))"
    by (rule preserves_returnM)
qed (auto simp: quad_coherent_def valid_touch returnM_def intro!: valid_insert)

lemma coherent_frame:
  assumes "\<And>c. preserves (\<lambda>s. quad_cache s = c) m"
  shows "preserves quad_coherent m"
  unfolding preserves_def
proof (intro allI impI)
  fix s r s'
  assume c: "quad_coherent s" and run: "m s = (r, s')"
  have "quad_cache s' = quad_cache s"
    using assms [of "quad_cache s"] run unfolding preserves_def by blast
  with c show "quad_coherent s'"
    by (simp add: quad_coherent_def)
qed

lemma frame_quad_lru:
  assumes "\<And>c. preserves (\<lambda>s. quad_cache s = c) body"
    and "\<And>f s. quad_cache (upd f s) = quad_cache s"
  shows "preserves (\<lambda>s. quad_cache s = c) (lru_call get upd k body)"
  by (rule preserves_lru_call) (simp_all add: assms)

lemma frame_quad_makers:
  "preserves (\<lambda>s. quad_cache s = c) (make_transferfunction_ASP B ka)"
  "preserves (\<lambda>s. quad_cache s = c) (make_transferfunction_polychrome_ASP B kp)"
  "preserves (\<lambda>s. quad_cache s = c) (make_transferfunction_scaledASP B ks)"
  unfolding make_transferfunction_ASP_def make_transferfunction_polychrome_ASP_def
    make_transferfunction_scaledASP_def
  by (rule frame_quad_lru, rule preserves_ASP_body [OF tick_stable_caches(1)], simp,
      rule frame_quad_lru, rule preserves_poly_body [OF tick_stable_caches(1)], simp,
      rule frame_quad_lru, rule preserves_sasp_body [OF tick_stable_caches(1)], simp)

lemma frame_quad_spoly:
  "preserves (\<lambda>s. quad_cache s = c) (make_transferfunction_scaledPolychromeASP B kr)"
  unfolding make_transferfunction_scaledPolychromeASP_def
  by (rule frame_quad_lru, rule preserves_spoly_body, rule frame_quad_makers(3), simp)

lemma coherent_twostep: "preserves quad_coherent (make_cache_twoStepPolychrome B k)"
  unfolding make_cache_twoStepPolychrome_def
proof (rule preserves_lru_call)
  show "preserves quad_coherent (make_cache_twoStepPolychrome_body B k)"
    by (rule preserves_twostep_body [OF tick_stable_coherent]) (rule coherent_quad)
qed (simp_all add: quad_coherent_def)

lemma reachable_coherent: "reachable B s \<Longrightarrow> quad_coherent s"
proof (induction rule: reachable.induct)
  case start
  show ?case by (simp add: quad_coherent_def init_state_def empty_cache_def)
next
  case (quad_phase s k res s')
  then show ?case using coherent_quad unfolding preserves_def by blast
next
  case (transferfunction_ASP s ka resa s')
  then show ?case using coherent_frame [OF frame_quad_makers(1)] unfolding preserves_def by blast
next
  case (transferfunction_polychrome_ASP s kp resp s')
  then show ?case using coherent_frame [OF frame_quad_makers(2)] unfolding preserves_def by blast
next
  case (transferfunction_scaledASP s ks ress s')
  then show ?case using coherent_frame [OF frame_quad_makers(3)] unfolding preserves_def by blast
next
  case (transferfunction_scaledPolychromeASP s kq resq s')
  then show ?case using coherent_frame [OF frame_quad_spoly] unfolding preserves_def by blast
next
  case (cache_twoStepPolychrome s kt rest s')
  then show ?case using coherent_twostep unfolding preserves_def by blast
next
  case (transform s)
  then show ?case by (simp add: quad_coherent_def)
next
  case (cleared s)
  show ?case by (simp add: quad_coherent_def clear_cache_def cache_clear_def empty_cache_def)
qed

lemma quad_value:
  assumes "quad_coherent s"
  shows "\<exists>oid s1. make_quad_phase (z, wl, N, dx, g) s =
           (Inr (oid, quad_phase_array z wl N dx), s1)"
proof (cases "cache_find (z, wl, N, dx, g) (entries (quad_cache s))")
  case None
  then show ?thesis
    using quad_miss [of z wl N dx g s] by (auto simp: cache_find_None_iff)
next
  case (Some ov)
  then have "((z, wl, N, dx, g), ov) \<in> set (entries (quad_cache s))"
    by (rule cache_find_Some_mem)
  with assms have "snd ov = quad_phase_array z wl N dx"
    by (auto simp: quad_coherent_def quad_of_key_def list_all_iff)
  with Some show ?thesis
    by (cases ov) (simp add: make_quad_phase_def lru_call_def)
qed

subsection \<open>Multiplying by a phase and by its conjugate\<close>

lemma row_cancel:
  "length a = length b \<Longrightarrow> (\<forall>c\<in>set b. c * cnj c = 1) \<Longrightarrow>
   map2 (*) (map2 (*) a b) (map cnj b) = a"
  by (induction a b rule: list_induct2) (auto simp: mult.assoc)

lemma matrix_cancel:
  "length x = length q \<Longrightarrow> (\<forall>(a, b)\<in>set (zip x q). length a = length b) \<Longrightarrow>
   (\<forall>row\<in>set q. \<forall>c\<in>set row. c * cnj c = 1) \<Longrightarrow>
   map2 (map2 (*)) (map2 (map2 (*)) x q) (map (map cnj) q) = x"
  by (induction x q rule: list_induct2) (auto simp: row_cancel)

lemma square_zip:
  "square_m N x \<Longrightarrow> square_m N q \<Longrightarrow> (a, b) \<in> set (zip x q) \<Longrightarrow> length a = length b"
  by (auto simp: square_m_def list_all_iff dest: set_zip_leftD set_zip_rightD)
    (metis set_zip_leftD set_zip_rightD)

lemma mul_conj_cancel:
  assumes "square_m N x" "square_m N q" "\<forall>row\<in>set q. \<forall>c\<in>set row. c * cnj c = 1"
  shows "map2_m (*) (map2_m (*) x q) (conj_m q) = x"
proof -
  have "length x = length q"
    using assms(1,2) by (simp add: square_m_def)
  moreover have "\<forall>(a, b)\<in>set (zip x q). length a = length b"
    using square_zip [OF assms(1,2)] by blast
  ultimately show ?thesis
    using assms(3) by (simp add: map2_m_def conj_m_def map_m_def matrix_cancel)
qed

lemma quad_phase_unit: "\<forall>row\<in>set (quad_phase_array z wl N dx). \<forall>c\<in>set row. c * cnj c = 1"
  by (auto simp: quad_phase_array_def meshgrid_def map2_m_def Let_def cis_cnj cis_mult
      elim!: in_set_zipE)

subsection \<open>Fields with square slices\<close>

lemma map_f_map_f: "map_f g (map_f h f) = map_f (\<lambda>x. g (h x)) f"
  by (simp add: map_f_def comp_def)

lemma map_f_cong_square:
  assumes "square_f N f" "\<And>x. square_m N x \<Longrightarrow> g x = h x"
  shows "map_f g f = map_f h f"
  using assms unfolding map_f_def square_f_def list_all_iff
  by (intro map_cong refl) blast

lemma map_f_ident: "square_f N f \<Longrightarrow> (\<And>x. square_m N x \<Longrightarrow> g x = x) \<Longrightarrow> map_f g f = f"
  using map_f_cong_square [of N f g "\<lambda>x. x"] by (simp add: map_f_def)

lemma square_f_map_f:
  assumes "square_f N f" "\<And>x. square_m N x \<Longrightarrow> square_m N (g x)"
  shows "square_f N (map_f g f)"
  using assms unfolding map_f_def square_f_def list_all_iff by auto

subsection \<open>The band limit of the angular spectrum\<close>

lemma band_limit: "\<not> 500000 < (2000 / sqrt ((1 / 1000)\<^sup>2 + 4 * (3 / 2)\<^sup>2))\<^sup>2"
  by (simp add: power_divide)

lemma aspw_W_bl: "aspw_W ref_backend (Suc 0) (3 / 2) (1 / 2000000) (1 / 1000) = [[0]]"
  using band_limit by (simp add: aspw_W_def aspw_grid_def array_defs Let_def ref_circ_def)

lemma aspw_H_bl: "\<exists>h. aspw_H (Suc 0) (3 / 2) (1 / 2000000) (1 / 1000) = [[h]]"
  by (simp add: aspw_H_def aspw_grid_def array_defs Let_def)

lemma aspw_bl:
  "aspw ref_backend [[1]] (3 / 2) (1 / 2000000) (1 / 1000) s =
     (Inr ([[0]], [[0]]), s\<lparr>transforms := transforms s + 2\<rparr>)"
proof -
  obtain h where "aspw_H (Suc 0) (3 / 2) (1 / 2000000) (1 / 1000) = [[h]]"
    using aspw_H_bl by blast
  then show ?thesis
    by (simp add: aspw_def aspw_W_bl ncols_def Let_def monad_defs fft2c_m_def ifft2c_m_def)
qed

lemma asp_maker_bl:
  "make_transferfunction_ASP ref_backend k_bl init_state = (Inr (0, [[[[[[0]]]]]]), s_bl)"
  by (simp add: make_transferfunction_ASP_def make_transferfunction_ASP_body_def k_bl_def
      kernel_stack_def ones_m_def aspw_bl lru_call_def cache_find_def cache_insert_def
      cache_size_def init_state_def empty_cache_def bindM_def returnM_def s_bl_def)

lemma asp_maker_bl_hit:
  "make_transferfunction_ASP ref_backend k_bl (s_bl\<lparr>transforms := n\<rparr>) =
     (Inr (0, [[[[[[0]]]]]]),
      asp_cache_update (\<lambda>c. c\<lparr>hits := hits c + 1\<rparr>) (s_bl\<lparr>transforms := n\<rparr>))"
  by (simp add: make_transferfunction_ASP_def lru_call_def cache_find_def cache_touch_def s_bl_def)

lemma asp_key_bl:
  "(False, nosm r_bl, npsm r_bl, Np r_bl, distance None r_bl, wavelength r_bl,
    Lp r_bl, nlambda r_bl, gpuSwitch p_asp) = k_bl"
  by (simp add: p_asp_def r_bl_def r_1x1_def distance_def k_bl_def)

lemma asp_forward_bl:
  "propagate_ASP ref_backend in0 p_asp r_bl False None init_state =
     (Inr ([[[[[[1]]]]]], [[[[[[0]]]]]]), s_bl\<lparr>transforms := 4\<rparr>)"
proof -
  have "\<not> fftshiftSwitch p_asp" "\<not> nlambda r_bl > 1" "esw r_bl = [[[[[[1]]]]]]"
    by (simp_all add: p_asp_def r_bl_def r_1x1_def)
  then show ?thesis
    by (simp add: propagate_ASP_def Let_def asp_key_bl asp_maker_bl bindM_def fft2c_f_def
        ifft2c_f_def tick_def liftE_def returnM_def in0_def map_f_def s_bl_def)
qed

lemma asp_inverse_bl:
  "propagate_ASP ref_backend [[[[[[0]]]]]] p_asp r_bl True None (s_bl\<lparr>transforms := 4\<rparr>) =
     (Inr ([[[[[[1]]]]]], [[[[[[0]]]]]]),
      asp_cache_update (\<lambda>c. c\<lparr>hits := hits c + 1\<rparr>) (s_bl\<lparr>transforms := 6\<rparr>))"
proof -
  have "\<not> fftshiftSwitch p_asp" "\<not> nlambda r_bl > 1" "esw r_bl = [[[[[[1]]]]]]"
    by (simp_all add: p_asp_def r_bl_def r_1x1_def)
  then show ?thesis
    by (simp add: propagate_ASP_def Let_def asp_key_bl asp_maker_bl_hit bindM_def fft2c_f_def
        ifft2c_f_def tick_def liftE_def returnM_def map_f_def conj_f_def conj_m_def map_m_def)
qed



subsection \<open>Forward, then inverse\<close>

lemma fraunhofer_round_trip:
  assumes sq: "square_f N flds"
    and inv: "\<And>x. square_m N x \<Longrightarrow>
      ifft2c B (Some (fftshiftSwitch p)) (fft2c B (Some (fftshiftSwitch p)) x) = x"
  shows "\<exists>F s1 s2. propagate_fraunhofer B flds p r None s = (Inr (esw r, F), s1) \<and>
           propagate_fraunhofer_inv B F p r None s1 = (Inr (esw r, flds), s2)"
  by (simp add: propagate_fraunhofer_def propagate_fraunhofer_inv_def bindM_def fft2c_f_def
      ifft2c_f_def tick_def returnM_def map_f_map_f map_f_ident [OF sq] inv)

lemma fresnel_round_trip:
  assumes reach: "reachable B s"
    and sq: "square_f (Np r) flds"
    and la: "last_axis flds = Np r"
    and inv: "\<And>x. square_m (Np r) x \<Longrightarrow>
      ifft2c B (Some (fftshiftSwitch p)) (fft2c B (Some (fftshiftSwitch p)) x) = x"
  shows "\<exists>F s1 s2. propagate_fresnel B flds p r None s = (Inr (esw r, F), s1) \<and>
           propagate_fresnel_inv B F p r None s1 = (Inr (esw r, flds), s2)"
proof -
  let ?sw = "Some (fftshiftSwitch p)"
  let ?Q = "quad_phase_array (zo r) (wavelength r) (Np r) (dxp r)"
  let ?fq = "map_f (\<lambda>x. map2_m (*) x ?Q) flds"
  let ?F = "map_f (fft2c B ?sw) ?fq"
  have z: "distance None r = zo r"
    by (simp add: distance_def)
  obtain oid s0 where mk1:
    "make_quad_phase (zo r, wavelength r, Np r, dxp r, Keyword (isGpuArray B flds)) s =
       (Inr (oid, ?Q), s0)"
    using quad_value [OF reachable_coherent [OF reach]] by blast
  have reach0: "reachable B s0"
    using reachable.quad_phase [OF reach mk1] .
  define s1 where "s1 = s0\<lparr>transforms := transforms s0 + 1\<rparr>"
  have fwd: "propagate_fresnel B flds p r None s = (Inr (esw r, ?F), s1)"
    by (simp add: propagate_fresnel_def Let_def z la bindM_def mk1 liftE_def s1_def
        mul_fm_square [OF sq square_quad_phase] fft2c_f_def tick_def returnM_def)
  have reach1: "reachable B s1"
    unfolding s1_def using reachable.transform [OF reach0] .
  obtain oid' s2 where mk2:
    "make_quad_phase (zo r, wavelength r, Np r, dxp r, Keyword (gpuSwitch p)) s1 =
       (Inr (oid', ?Q), s2)"
    using quad_value [OF reachable_coherent [OF reach1]] by blast
  have sqfq: "square_f (Np r) ?fq"
    by (rule square_f_map_f [OF sq]) (rule square_m_map2 [OF _ square_quad_phase])
  have unfft: "map_f (ifft2c B ?sw) ?F = ?fq"
    unfolding map_f_map_f [of "ifft2c B ?sw"]
    by (rule map_f_ident [OF sqfq]) (rule inv)
  have undo: "map_f (\<lambda>x. map2_m (*) x (conj_m ?Q)) ?fq = flds"
    unfolding map_f_map_f
    by (rule map_f_ident [OF sq]) (rule mul_conj_cancel [OF _ square_quad_phase quad_phase_unit])
  have prod: "mul_fm ?fq (conj_m ?Q) = Inr flds"
    using mul_fm_square [OF sqfq square_m_conj [OF square_quad_phase]] undo by simp
  have "propagate_fresnel_inv B ?F p r None s1 =
      (Inr (esw r, flds), s2\<lparr>transforms := transforms s2 + 1\<rparr>)"
    by (simp add: propagate_fresnel_inv_def Let_def z bindM_def mk2 liftE_def unfft prod
        ifft2c_f_def tick_def returnM_def)
  with fwd show ?thesis
    by blast
qed

subsection \<open>The reference transforms on two by two pixels\<close>

lemma cis_neg_pi [simp]: "cis (- pi) = - 1" "cis (- (2 * pi)) = 1"
  by (simp_all add: complex_eq_iff)

lemma dft2_2x2:
  "dft2 1 [[a, b], [c, d]] =
     [[(a + b + c + d) / 2, (a - b + c - d) / 2], [(a + b - c - d) / 2, (a - b - c + d) / 2]]"
  "dft2 (- 1) [[a, b], [c, d]] =
     [[(a + b + c + d) / 2, (a - b + c - d) / 2], [(a + b - c - d) / 2, (a - b - c + d) / 2]]"
  by (simp_all add: dft2_def ncols_def Let_def)

lemma rotate_2 [simp]: "rotate (Suc 0) [x, y] = [y, x]"
  by (simp add: rotate_def)

lemma ref_fft2c_2x2:
  "ref_fft2c (Some True) [[a, b], [c, d]] =
     [[(a + b + c + d) / 2, (a - b + c - d) / 2], [(a + b - c - d) / 2, (a - b - c + d) / 2]]"
  "sw \<noteq> Some True \<Longrightarrow> ref_fft2c sw [[a, b], [c, d]] =
     [[(a - b - c + d) / 2, (c + d - a - b) / 2], [(b - a + d - c) / 2, (a + b + c + d) / 2]]"
  by (simp_all add: ref_fft2c_def dft2_2x2 fftshift_def ifftshift_def field_simps)

lemma ref_ifft2c_2x2:
  "ref_ifft2c sw [[a, b], [c, d]] = ref_fft2c sw [[a, b], [c, d]]"
  by (simp add: ref_fft2c_def ref_ifft2c_def dft2_2x2 fftshift_def ifftshift_def)

lemma square_2: "square_m 2 x \<Longrightarrow> \<exists>a b c d. x = [[a, b], [c, d]]"
  by (auto simp: square_m_def length_Suc_conv numeral_2_eq_2)

lemma ref_inverse_2x2:
  assumes "square_m 2 x"
  shows "ref_ifft2c sw (ref_fft2c sw x) = x"
proof -
  obtain a b c d where x: "x = [[a, b], [c, d]]"
    using square_2 [OF assms] by blast
  show ?thesis
    unfolding x by (cases "sw = Some True") (simp_all add: ref_ifft2c_2x2 ref_fft2c_2x2 field_simps)
qed



subsection \<open>The scaled angular-spectrum kernels on two by two pixels\<close>

lemma int_range_2: "int_range 2 = [- 1, 0]"
  by (simp add: int_range_def upto.simps)

lemma scaledASP_Q1_2: "scaledASP_Q1 ref_backend 2 1 (1 / 2) 1 (1 / 2) = Q1_scaled"
  by (simp add: scaledASP_Q1_def int_range_2 meshgrid_def map2_m_def Let_def ref_circ_def
      Q1_scaled_def power2_eq_square)

lemma scaledASP_Q2_2: "scaledASP_Q2 ref_backend 2 1 (1 / 2) 1 (1 / 2) = Q2_scaled"
  by (simp add: scaledASP_Q2_def int_range_2 meshgrid_def map2_m_def Let_def ref_circ_def
      Q2_scaled_def power2_eq_square)

lemma mul_mm_2x2:
  "mul_mm [[a, b], [c, d]] [[e, f], [g, h]] = Inr [[a * e, b * f], [c * g, d * h]]"
  by (simp add: mul_mm_def bc2_def mul_c_def)

lemma mul_ff_2x2:
  "mul_ff [[[[x]]]] [[[[y]]]] =
     (case mul_mm x y of Inl e \<Rightarrow> Inl e | Inr z \<Rightarrow> Inr [[[[z]]]])"
  by (simp add: mul_ff_def bc2_def split: sum.splits)

lemma scaledASP_2:
  "\<exists>u. scaledASP ref_backend (ones_m 2) 1 (1 / 2) 1 (1 / 2) s =
     (Inr (u, Q1_scaled, Q2_scaled), s\<lparr>transforms := transforms s + 2\<rparr>)"
proof -
  have n: "ncols (ones_m 2) = 2"
    by (simp add: ones_m_def ncols_def numeral_2_eq_2)
  have o: "ones_m 2 = [[1, 1], [1, 1]]"
    by (simp add: ones_m_def numeral_2_eq_2)
  show ?thesis
    unfolding scaledASP_def n Let_def scaledASP_Q1_2 scaledASP_Q2_2
    by (simp add: o Q1_scaled_def Q2_scaled_def mul_mm_2x2 ref_fft2c_2x2 ref_ifft2c_2x2
        monad_defs fft2c_m_def ifft2c_m_def)
qed

lemma sasp_body_any:
  "make_transferfunction_scaledASP_body ref_backend
     (model, False, 1, 1, 1, 2, 1, 1 / 2, 1, 1 / 2, g) s =
     (Inr ([[[[Q1_scaled]]]], [[[[Q2_scaled]]]]), s\<lparr>transforms := transforms s + 2\<rparr>)"
proof -
  obtain u where "scaledASP ref_backend (ones_m 2) 1 (1 / 2) 1 (1 / 2) s =
      (Inr (u, Q1_scaled, Q2_scaled), s\<lparr>transforms := transforms s + 2\<rparr>)"
    using scaledASP_2 by blast
  then show ?thesis
    by (simp add: make_transferfunction_scaledASP_body_def scaledASP_outer_def
        scaledASP_inner_def assign_slice_def ones_f_def bindM_def returnM_def)
qed

lemma sasp_body_2:
  "make_transferfunction_scaledASP_body ref_backend k_sasp s =
     (Inr ([[[[Q1_scaled]]]], [[[[Q2_scaled]]]]), s\<lparr>transforms := transforms s + 2\<rparr>)"
  unfolding k_sasp_def by (rule sasp_body_any)

lemma sasp_maker_2:
  assumes "entries (sasp_cache s) = []"
  shows "make_transferfunction_scaledASP ref_backend k_sasp s =
     (Inr (next_oid s, [[[[Q1_scaled]]]], [[[[Q2_scaled]]]]),
      s\<lparr>sasp_cache :=
          \<lparr>entries = [(k_sasp, next_oid s, [[[[Q1_scaled]]]], [[[[Q2_scaled]]]])],
           hits = hits (sasp_cache s), misses = misses (sasp_cache s) + 1\<rparr>,
        next_oid := next_oid s + 1, transforms := transforms s + 2\<rparr>)"
  using assms
  by (simp add: make_transferfunction_scaledASP_def lru_call_def cache_find_def sasp_body_2
      cache_insert_def cache_size_def)

lemma spoly_maker_2:
  "make_transferfunction_scaledPolychromeASP ref_backend k_spoly init_state =
     (Inr (1, [[[[Q1_scaled]]]], [[[[Q2_scaled]]]]), s_scaled)"
  by (simp add: make_transferfunction_scaledPolychromeASP_def
      make_transferfunction_scaledPolychromeASP_body_def k_spoly_def scaledPolychromeASP_step_def
      index_sd_def sasp_maker_2 [unfolded k_sasp_def One_nat_def]
      lru_call_def cache_find_def cache_insert_def cache_size_def init_state_def empty_cache_def
      ones_f_def bindM_def returnM_def s_scaled_def k_sasp_def)

lemma spoly_key_2:
  "(False, nlambda r_scaled, nosm r_scaled, npsm r_scaled, distance None r_scaled, Np r_scaled,
    spectralDensity r_scaled, dxo r_scaled, dxp r_scaled, gpuSwitch p_spoly) = k_spoly"
  by (simp add: r_scaled_def r_1x1_def p_spoly_def distance_def k_spoly_def)

lemma cnj_scaled: "cnj (cis (- (pi / 4))) = cis (pi / 4)"
  by (simp add: cis_cnj)

lemma spoly_inverse_2:
  "propagate_scaledPolychromeASP ref_backend f_2x2 p_spoly r_scaled True None init_state =
     (Inr (esw r_scaled, [[[[[[\<i>, cis (pi / 4)], [cis (pi / 4), 1]]]]]]),
      s_scaled\<lparr>transforms := 4\<rparr>)"
proof -
  have "\<not> fftshiftSwitch p_spoly"
    by (simp add: p_spoly_def)
  then show ?thesis
    by (simp add: propagate_scaledPolychromeASP_def Let_def spoly_key_2 spoly_maker_2 bindM_def
        fft2c_f_def ifft2c_f_def tick_def liftE_def returnM_def f_2x2_def map_f_def conj_f_def
        conj_m_def map_m_def Q1_scaled_def Q2_scaled_def mul_ff_2x2 mul_mm_2x2 ref_fft2c_2x2
        ref_ifft2c_2x2 cnj_scaled s_scaled_def)
qed

lemma spoly_spec_2:
  "scaled_inverse_spec ref_backend f_2x2 [[[[Q1_scaled]]]] [[[[Q2_scaled]]]] =
     Inr [[[[[[0, 0], [0, 1]]]]]]"
  by (simp add: scaled_inverse_spec_def f_2x2_def map_f_def conj_f_def conj_m_def map_m_def
      Q1_scaled_def Q2_scaled_def mul_ff_2x2 mul_mm_2x2 ref_fft2c_2x2 ref_ifft2c_2x2)

lemma sasp_inverse_2:
  "fst (propagate_scaledASP ref_backend f_2x2 p_sasp r_scaled_mono True None init_state) =
     Inr (esw r_scaled_mono, [[[[[[0, 0], [0, 1]]]]]])"
proof -
  have k: "(Some (propagatorType p_sasp), fftshiftSwitch p_sasp, nlambda r_scaled_mono,
      nosm r_scaled_mono, npsm r_scaled_mono, Np r_scaled_mono, distance None r_scaled_mono,
      wavelength r_scaled_mono, dxo r_scaled_mono, dxd r_scaled_mono,
      Positional (gpuSwitch p_sasp)) =
      (Some ''scaledASP'', False, 1, 1, 1, 2, 1, 1 / 2, 1, 1 / 2, Positional False)"
    by (simp add: r_scaled_mono_def r_1x1_def p_sasp_def distance_def)
  have m: "\<exists>s1. make_transferfunction_scaledASP ref_backend
      (Some ''scaledASP'', False, 1, 1, 1, 2, 1, 1 / 2, 1, 1 / 2, Positional False) init_state =
      (Inr (0, [[[[Q1_scaled]]]], [[[[Q2_scaled]]]]), s1)"
    by (simp add: make_transferfunction_scaledASP_def lru_call_def cache_find_def
        sasp_body_any [unfolded One_nat_def] init_state_def empty_cache_def)
  then obtain s1 where "make_transferfunction_scaledASP ref_backend
      (Some ''scaledASP'', False, 1, 1, 1, 2, 1, 1 / 2, 1, 1 / 2, Positional False) init_state =
      (Inr (0, [[[[Q1_scaled]]]], [[[[Q2_scaled]]]]), s1)"
    by blast
  then show ?thesis
    unfolding propagate_scaledASP_def Let_def k
    by (simp add: bindM_def fft2c_f_def ifft2c_f_def tick_def liftE_def returnM_def f_2x2_def
        map_f_def conj_f_def conj_m_def map_m_def Q1_scaled_def Q2_scaled_def mul_ff_2x2
        mul_mm_2x2 ref_fft2c_2x2 ref_ifft2c_2x2)
qed

text \<open>
  C4: the inverse branch of \<^verbatim>\<open>propagate_scaledPolychromeASP\<close> multiplies by the conjugate
  of \<open>Q1\<close> in the frequency plane and by the conjugate of \<open>Q2\<close> afterwards, the two
  factors exchanged with respect to \<^verbatim>\<open>propagate_scaledASP\<close> and to the specification.
  On the all-ones field of two by two pixels, with the kernels the kernel function
  returns for that configuration, the propagator returns an array whose first entry is
  the imaginary unit where the specified transform gives zero; \<^verbatim>\<open>propagate_scaledASP\<close>,
  with the same kernels, returns what the specified transform gives.
\<close>

theorem scaled_inverse_differs:
  "propagate_scaledPolychromeASP ref_backend f_2x2 p_spoly r_scaled True None init_state =
     (Inr (esw r_scaled, [[[[[[\<i>, cis (pi / 4)], [cis (pi / 4), 1]]]]]]),
      s_scaled\<lparr>transforms := 4\<rparr>) \<and>
   make_transferfunction_scaledPolychromeASP ref_backend k_spoly init_state =
     (Inr (1, [[[[Q1_scaled]]]], [[[[Q2_scaled]]]]), s_scaled) \<and>
   scaled_inverse_spec ref_backend f_2x2 [[[[Q1_scaled]]]] [[[[Q2_scaled]]]] =
     Inr [[[[[[0, 0], [0, 1]]]]]] \<and>
   [[[[[[\<i>, cis (pi / 4)], [cis (pi / 4), 1]]]]]] \<noteq> [[[[[[0, 0], [0, 1::complex]]]]]] \<and>
   fst (propagate_scaledASP ref_backend f_2x2 p_sasp r_scaled_mono True None init_state) =
     Inr (esw r_scaled_mono, [[[[[[0, 0], [0, 1]]]]]])"
  using spoly_inverse_2 spoly_maker_2 spoly_spec_2 sasp_inverse_2 by simp

end
